theory Spec2Isabelle
  imports Main "HOL-Library.Word"
begin

unbundle bit_operations_syntax

section \<open>The Windows thread layer of the TRDP virtual operating system (vos_winThread.c)\<close>

text \<open>
  A shallow embedding of \<^verbatim>\<open>src/trdp/src/vos/windows/vos_winThread.c\<close>.

  \<^item> The file refuses to compile unless \<^verbatim>\<open>_WIN64\<close> is defined, so the data model is LLP64:
    \<^verbatim>\<open>int\<close>, \<^verbatim>\<open>long\<close>, \<^verbatim>\<open>DWORD\<close> and \<^verbatim>\<open>UINT32\<close> are 32 bits wide. Machine integers
    are words; signed reads go through \<open>sint\<close>, \<open>\<le>s\<close> and \<open><s\<close>. Arithmetic that leaves
    the range of \<^verbatim>\<open>long\<close> wraps in two's complement, which is what the conversions from
    \<^verbatim>\<open>unsigned\<close> back to \<^verbatim>\<open>long\<close> do under the Microsoft compiler.
  \<^item> A pointer argument is an \<open>option\<close>: \<open>None\<close> is \<^verbatim>\<open>NULL\<close>, \<open>Some v\<close> points at an object
    holding \<open>v\<close>; a function that writes through the pointer returns the new contents.
    Mutexes live in an explicit store, since a deleted mutex is looked at again later.
  \<^item> What the operating system answers is an argument of the function that asks; every
    call into the operating system is appended to the trace \<open>native\<close> of the state.
  \<^item> Undefined behaviour (dereferencing \<^verbatim>\<open>NULL\<close>, reading outside an array) is the value
    \<open>Inl\<close> of a \<open>fault\<close>.
\<close>

subsection \<open>Types\<close>

type_synonym UINT8 = "8 word"
type_synonym UINT16 = "16 word"
type_synonym UINT32 = "32 word"
type_synonym INT32 = "32 word"
type_synonym LONG = "32 word"
type_synonym DWORD = "32 word"

text \<open>A \<^verbatim>\<open>HANDLE\<close> of the operating system; \<open>0\<close> is the \<^verbatim>\<open>NULL\<close> handle.\<close>

type_synonym HANDLE = nat

datatype VOS_ERR_T =
    VOS_NO_ERR
  | VOS_PARAM_ERR
  | VOS_INIT_ERR
  | VOS_NOINIT_ERR
  | VOS_THREAD_ERR
  | VOS_MUTEX_ERR
  | VOS_SEMA_ERR
  | VOS_MEM_ERR
  | VOS_INUSE_ERR

datatype VOS_LOG_T = VOS_LOG_ERROR | VOS_LOG_WARNING

datatype VOS_THREAD_POLICY_T =
    VOS_THREAD_POLICY_OTHER
  | VOS_THREAD_POLICY_FIFO
  | VOS_THREAD_POLICY_RR

datatype fault = NullDereference | IndexOutOfBounds int

text \<open>
  \<^verbatim>\<open>VOS_TIMEVAL_T\<close> is the \<^verbatim>\<open>struct timeval\<close> of winsock (the code applies its macros
  \<^verbatim>\<open>timerclear\<close> and \<^verbatim>\<open>timercmp\<close> to it): two fields of type \<^verbatim>\<open>long\<close>. That the fields
  are signed is what the source itself says where it mixes them with \<^verbatim>\<open>UINT32\<close>: the
  cast \<^verbatim>\<open>(UINT32)afterCall.tv_usec\<close> in the cyclic thread and the lint remarks
  \<^verbatim>\<open>!e573 mix of signed and unsigned\<close> on every line of \<^verbatim>\<open>vos_divTime\<close>.
\<close>

record VOS_TIMEVAL_T =
  tv_sec :: LONG
  tv_usec :: LONG

text \<open>\<^verbatim>\<open>struct __timeb32\<close>, as far as the code reads it.\<close>

record timeb32 =
  time :: "32 word"
  millitm :: "16 word"

record VOS_MUTEX =
  mutexId :: HANDLE
  magicNo :: UINT32

record VOS_SEMA =
  semaphore :: HANDLE

text \<open>Every call the code makes into the operating system or into a collaborator.\<close>

text \<open>The seven priority levels of a Windows thread that the code names.\<close>

datatype thread_priority =
    THREAD_PRIORITY_IDLE
  | THREAD_PRIORITY_LOWEST
  | THREAD_PRIORITY_BELOW_NORMAL
  | THREAD_PRIORITY_NORMAL
  | THREAD_PRIORITY_ABOVE_NORMAL
  | THREAD_PRIORITY_HIGHEST
  | THREAD_PRIORITY_TIME_CRITICAL

datatype native_call =
    CreateThread nat nat nat
  | SetThreadPriority HANDLE thread_priority
  | TerminateThread HANDLE
  | GetExitCodeThread HANDLE
  | GetCurrentThread
  | GetLastError
  | Sleep DWORD
  | Ftime32
  | CreateMutexCall
  | CloseHandle HANDLE
  | WaitForSingleObject HANDLE DWORD
  | ReleaseMutex HANDLE
  | ReleaseSemaphore HANDLE
  | SockGetMAC

text \<open>
  The state of the module: the flag \<^verbatim>\<open>vosThreadInitialised\<close>, the static counter of
  \<^verbatim>\<open>vos_getUuid\<close>, the memory holding mutexes, and the two things the module does to the
  outside: what it logged and which native calls it made.
\<close>

record vos_state =
  vosThreadInitialised :: bool
  count :: UINT16
  mutexMem :: "nat \<Rightarrow> VOS_MUTEX"
  logged :: "(VOS_LOG_T \<times> string) list"
  native :: "native_call list"

definition cDefaultStackSize :: nat where
  "cDefaultStackSize = 16 * 1024"

definition cMutextMagic :: UINT32 where
  "cMutextMagic = 0x1234FEDC"

definition MAXSEC_FOR_USECPRESENTATION :: LONG where
  "MAXSEC_FOR_USECPRESENTATION = 4293"

text \<open>
  Modelled from the spec: the logging sink \<^verbatim>\<open>vos_printLog\<close> / \<^verbatim>\<open>vos_printLogStr\<close>
  (vos_utils.h is not among the sources), "a leveled (error/warning) message-formatting
  call" that never aborts. An entry is the level and the format string of the call,
  without its final line feed and without the formatted arguments.
\<close>

definition vos_printLog :: "VOS_LOG_T \<Rightarrow> string \<Rightarrow> vos_state \<Rightarrow> vos_state" where
  "vos_printLog lvl msg s = s\<lparr>logged := logged s @ [(lvl, msg)]\<rparr>"

definition call :: "native_call \<Rightarrow> vos_state \<Rightarrow> vos_state" where
  "call c s = s\<lparr>native := native s @ [c]\<rparr>"

subsection \<open>Time values\<close>

text \<open>
  \<^verbatim>\<open>vos_getTime\<close>: \<open>ftime\<close> is what \<^verbatim>\<open>_ftime32_s\<close> answers, \<open>None\<close> when it fails.
  \<^verbatim>\<open>millitm\<close> is an \<^verbatim>\<open>unsigned short\<close>, so the product is computed in \<^verbatim>\<open>int\<close> and fits.
\<close>

definition vos_getTime ::
  "VOS_TIMEVAL_T option \<Rightarrow> timeb32 option \<Rightarrow> vos_state \<Rightarrow> VOS_TIMEVAL_T option \<times> vos_state" where
  "vos_getTime pTime ftime s =
     (case pTime of
        None \<Rightarrow> (None, vos_printLog VOS_LOG_ERROR ''ERROR NULL pointer'' s)
      | Some _ \<Rightarrow>
          (case ftime of
             Some curTime \<Rightarrow>
               (Some \<lparr>tv_sec = time curTime, tv_usec = ucast (millitm curTime) * 1000\<rparr>,
                call Ftime32 s)
           | None \<Rightarrow> (Some \<lparr>tv_sec = 0, tv_usec = 0\<rparr>, call Ftime32 s)))"

definition vos_clearTime ::
  "VOS_TIMEVAL_T option \<Rightarrow> vos_state \<Rightarrow> VOS_TIMEVAL_T option \<times> vos_state" where
  "vos_clearTime pTime s =
     (case pTime of
        None \<Rightarrow> (None, vos_printLog VOS_LOG_ERROR ''ERROR NULL pointer'' s)
      | Some _ \<Rightarrow> (Some \<lparr>tv_sec = 0, tv_usec = 0\<rparr>, s))"

text \<open>
  The loop \<^verbatim>\<open>while (pTime->tv_usec >= 1000000) { pTime->tv_sec++; pTime->tv_usec -= 1000000; }\<close>
  that ends both \<^verbatim>\<open>vos_addTime\<close> and \<^verbatim>\<open>vos_mulTime\<close>. The comparison is signed.
\<close>

lemma sint_sub_million:
  fixes u :: "32 word"
  assumes "1000000 \<le>s u"
  shows "sint (u - 1000000) = sint u - 1000000"
proof -
  have lo: "1000000 \<le> sint u"
    using assms by (simp add: word_sle_eq)
  have hi: "sint u < 2 ^ 31"
    using sint_lt [of u] by simp
  have "sint (u - 1000000) = signed_take_bit 31 (sint u - 1000000)"
    by (simp add: sint_word_diff)
  also have "\<dots> = sint u - 1000000"
    using lo hi by (intro signed_take_bit_int_eq_self) simp_all
  finally show ?thesis .
qed

function carry_loop :: "VOS_TIMEVAL_T \<Rightarrow> VOS_TIMEVAL_T" where
  "carry_loop t =
     (if 1000000 \<le>s tv_usec t
      then carry_loop (t\<lparr>tv_sec := tv_sec t + 1, tv_usec := tv_usec t - 1000000\<rparr>)
      else t)"
  by pat_completeness auto
termination
proof (relation "measure (\<lambda>t. nat (sint (tv_usec t)))")
  show "wf (measure (\<lambda>t. nat (sint (tv_usec t))))"
    by simp
next
  fix t :: VOS_TIMEVAL_T
  assume le: "1000000 \<le>s tv_usec t"
  then have "1000000 \<le> sint (tv_usec t)"
    by (simp add: word_sle_eq)
  with sint_sub_million [OF le]
  show "(t\<lparr>tv_sec := tv_sec t + 1, tv_usec := tv_usec t - 1000000\<rparr>, t)
          \<in> measure (\<lambda>t. nat (sint (tv_usec t)))"
    by simp
qed

declare carry_loop.simps [simp del]

definition vos_addTime ::
  "VOS_TIMEVAL_T option \<Rightarrow> VOS_TIMEVAL_T option \<Rightarrow> vos_state \<Rightarrow> VOS_TIMEVAL_T option \<times> vos_state" where
  "vos_addTime pTime pAdd s =
     (case (pTime, pAdd) of
        (Some t, Some a) \<Rightarrow>
          (Some (carry_loop \<lparr>tv_sec = tv_sec t + tv_sec a, tv_usec = tv_usec t + tv_usec a\<rparr>), s)
      | _ \<Rightarrow> (pTime, vos_printLog VOS_LOG_ERROR ''ERROR NULL pointer'' s))"

text \<open>\<^verbatim>\<open>vos_subTime\<close>: the borrow is taken when \<^verbatim>\<open>pSub->tv_usec > pTime->tv_usec\<close> (signed).\<close>

definition vos_subTime ::
  "VOS_TIMEVAL_T option \<Rightarrow> VOS_TIMEVAL_T option \<Rightarrow> vos_state \<Rightarrow> VOS_TIMEVAL_T option \<times> vos_state" where
  "vos_subTime pTime pSub s =
     (case (pTime, pSub) of
        (Some t, Some b) \<Rightarrow>
          (let t1 = (if tv_usec t <s tv_usec b
                     then t\<lparr>tv_sec := tv_sec t - 1, tv_usec := tv_usec t + 1000000\<rparr>
                     else t)
           in (Some \<lparr>tv_sec = tv_sec t1 - tv_sec b, tv_usec = tv_usec t1 - tv_usec b\<rparr>, s))
      | _ \<Rightarrow> (pTime, vos_printLog VOS_LOG_ERROR ''ERROR NULL pointer'' s))"

text \<open>
  \<^verbatim>\<open>vos_divTime\<close>: the divisor is a \<^verbatim>\<open>UINT32\<close>, so \<^verbatim>\<open>%\<close> and \<^verbatim>\<open>/\<close> convert the \<^verbatim>\<open>long\<close>
  fields to unsigned and divide there (the lint remarks of the source); \<open>div\<close> and
  \<open>mod\<close> on words are the unsigned operations. \<^verbatim>\<open>temp * 1000000\<close> is a \<^verbatim>\<open>UINT32\<close>
  product and wraps.
\<close>

definition vos_divTime ::
  "VOS_TIMEVAL_T option \<Rightarrow> UINT32 \<Rightarrow> vos_state \<Rightarrow> VOS_TIMEVAL_T option \<times> vos_state" where
  "vos_divTime pTime divisor s =
     (case pTime of
        None \<Rightarrow> (None, vos_printLog VOS_LOG_ERROR ''ERROR NULL pointer/parameter'' s)
      | Some t \<Rightarrow>
          if divisor = 0
          then (Some t, vos_printLog VOS_LOG_ERROR ''ERROR NULL pointer/parameter'' s)
          else
            (let temp = tv_sec t mod divisor;
                 sec = tv_sec t div divisor;
                 usec = (if 0 < temp then tv_usec t + temp * 1000000 else tv_usec t)
             in (Some \<lparr>tv_sec = sec, tv_usec = usec div divisor\<rparr>, s)))"

text \<open>\<^verbatim>\<open>vos_mulTime\<close>: both products are taken in \<^verbatim>\<open>UINT32\<close> and stored back into \<^verbatim>\<open>long\<close>.\<close>

definition vos_mulTime ::
  "VOS_TIMEVAL_T option \<Rightarrow> UINT32 \<Rightarrow> vos_state \<Rightarrow> VOS_TIMEVAL_T option \<times> vos_state" where
  "vos_mulTime pTime mul s =
     (case pTime of
        None \<Rightarrow> (None, vos_printLog VOS_LOG_ERROR ''ERROR NULL pointer/parameter'' s)
      | Some t \<Rightarrow>
          (Some (carry_loop \<lparr>tv_sec = tv_sec t * mul, tv_usec = tv_usec t * mul\<rparr>), s))"

text \<open>
  The macro \<^verbatim>\<open>timercmp(tvp, uvp, cmp)\<close> of winsock, for the comparisons greater-than and less-than:
  \<^verbatim>\<open>tvp->tv_sec cmp uvp->tv_sec || tvp->tv_sec == uvp->tv_sec && tvp->tv_usec cmp uvp->tv_usec\<close>.
\<close>

definition timercmp_gt :: "VOS_TIMEVAL_T \<Rightarrow> VOS_TIMEVAL_T \<Rightarrow> bool" where
  "timercmp_gt t u \<longleftrightarrow> tv_sec u <s tv_sec t \<or> (tv_sec t = tv_sec u \<and> tv_usec u <s tv_usec t)"

definition timercmp_lt :: "VOS_TIMEVAL_T \<Rightarrow> VOS_TIMEVAL_T \<Rightarrow> bool" where
  "timercmp_lt t u \<longleftrightarrow> tv_sec t <s tv_sec u \<or> (tv_sec t = tv_sec u \<and> tv_usec t <s tv_usec u)"

definition vos_cmpTime ::
  "VOS_TIMEVAL_T option \<Rightarrow> VOS_TIMEVAL_T option \<Rightarrow> vos_state \<Rightarrow> INT32 \<times> vos_state" where
  "vos_cmpTime pTime pCmp s =
     (case (pTime, pCmp) of
        (Some t, Some c) \<Rightarrow>
          (if timercmp_gt t c then (1, s)
           else if timercmp_lt t c then (- 1, s)
           else (0, s))
      | _ \<Rightarrow> (0, s))"

subsection \<open>Threads\<close>

definition vos_threadInit :: "vos_state \<Rightarrow> VOS_ERR_T \<times> vos_state" where
  "vos_threadInit s = (VOS_NO_ERR, s\<lparr>vosThreadInitialised := True\<rparr>)"

definition vos_threadTerm :: "vos_state \<Rightarrow> vos_state" where
  "vos_threadTerm s = s\<lparr>vosThreadInitialised := False\<rparr>"

text \<open>The local array \<^verbatim>\<open>prioMap\<close> of \<^verbatim>\<open>vos_threadCreate\<close>.\<close>

definition prioMap :: "thread_priority list" where
  "prioMap =
     [THREAD_PRIORITY_IDLE,
      THREAD_PRIORITY_LOWEST,
      THREAD_PRIORITY_BELOW_NORMAL,
      THREAD_PRIORITY_NORMAL,
      THREAD_PRIORITY_ABOVE_NORMAL,
      THREAD_PRIORITY_HIGHEST,
      THREAD_PRIORITY_TIME_CRITICAL]"

text \<open>Reading \<^verbatim>\<open>xs[i]\<close>: outside the array the behaviour of C is undefined, here a fault.\<close>

definition array_read :: "'a list \<Rightarrow> int \<Rightarrow> fault + 'a" where
  "array_read xs i =
     (if 0 \<le> i \<and> i < int (length xs) then Inr (xs ! nat i) else Inl (IndexOutOfBounds i))"

text \<open>
  The index \<^verbatim>\<open>priority / 36 - 1\<close>. \<^verbatim>\<open>VOS_THREAD_PRIORITY_T\<close> is an unsigned byte (the code
  tests \<^verbatim>\<open>priority <= 255u\<close> and documents the range 1...255), so the expression is
  computed in \<^verbatim>\<open>int\<close> after promotion and can be \<open>-1\<close>.
\<close>

definition prioIndex :: "UINT8 \<Rightarrow> int" where
  "prioIndex priority = uint priority div 36 - 1"

text \<open>
  \<^verbatim>\<open>vos_threadCreate\<close>. \<open>pThread\<close> is the variable the handle is returned in (its contents,
  or \<open>None\<close> for a null pointer), \<open>hThread\<close> is what \<^verbatim>\<open>CreateThread\<close> answers. The result
  is the error code, the new contents of \<open>*pThread\<close> and the state, or the fault together
  with the state it happened in.
\<close>

definition vos_threadCreate ::
  "HANDLE option \<Rightarrow> string option \<Rightarrow> VOS_THREAD_POLICY_T \<Rightarrow> UINT8 \<Rightarrow> UINT32 \<Rightarrow> UINT32 \<Rightarrow>
   nat \<Rightarrow> nat \<Rightarrow> HANDLE \<Rightarrow> vos_state \<Rightarrow>
   (fault \<times> vos_state) + (VOS_ERR_T \<times> HANDLE option \<times> vos_state)" where
  "vos_threadCreate pThread pName policy priority interval stackSize pFunction pArguments hThread s =
     (if \<not> vosThreadInitialised s then Inr (VOS_INIT_ERR, pThread, s)
      else if pThread = None \<or> pName = None then Inr (VOS_PARAM_ERR, pThread, s)
      else if 0 < interval
      then Inr (VOS_INIT_ERR, Some 0,
                vos_printLog VOS_LOG_ERROR ''%s cyclic threads not implemented yet'' s)
      else
        (let s1 = call (CreateThread (if stackSize = 0 then cDefaultStackSize else unat stackSize)
                          pFunction pArguments) s
         in if hThread = 0
            then Inr (VOS_THREAD_ERR, Some 0,
                      vos_printLog VOS_LOG_ERROR ''%s CreateThread() failed'' s1)
            else
              (let s2 = (if policy \<noteq> VOS_THREAD_POLICY_OTHER
                         then vos_printLog VOS_LOG_WARNING
                                ''%s Thread policy other than 'default' is not supported!'' s1
                         else s1)
               in if 0 < priority \<and> priority \<le> 255
                  then (case array_read prioMap (prioIndex priority) of
                          Inl f \<Rightarrow> Inl (f, s2)
                        | Inr level \<Rightarrow>
                            Inr (VOS_NO_ERR, Some hThread,
                                 call (SetThreadPriority hThread level) s2))
                  else Inr (VOS_NO_ERR, Some hThread, s2))))"

text \<open>\<^verbatim>\<open>vos_threadTerminate\<close>: \<open>ret\<close> is what \<^verbatim>\<open>TerminateThread\<close> answers.\<close>

definition vos_threadTerminate :: "HANDLE \<Rightarrow> 32 word \<Rightarrow> vos_state \<Rightarrow> VOS_ERR_T \<times> vos_state" where
  "vos_threadTerminate thread ret s =
     (if \<not> vosThreadInitialised s then (VOS_INIT_ERR, s)
      else
        (let s1 = call (TerminateThread thread) s
         in if ret = 0
            then (VOS_THREAD_ERR,
                  vos_printLog VOS_LOG_ERROR ''TerminateThread() failed (Err: %d)''
                    (call GetLastError s1))
            else (VOS_NO_ERR, s1)))"

text \<open>\<^verbatim>\<open>vos_threadIsActive\<close>: \<open>ret\<close> is what \<^verbatim>\<open>GetExitCodeThread\<close> answers.\<close>

definition vos_threadIsActive :: "HANDLE \<Rightarrow> 32 word \<Rightarrow> vos_state \<Rightarrow> VOS_ERR_T \<times> vos_state" where
  "vos_threadIsActive thread ret s =
     (if \<not> vosThreadInitialised s then (VOS_INIT_ERR, s)
      else
        (let s1 = call (GetExitCodeThread thread) s
         in if ret = 0 then (VOS_PARAM_ERR, s1) else (VOS_NO_ERR, s1)))"

text \<open>\<^verbatim>\<open>vos_threadSelf\<close>: \<open>cur\<close> is what \<^verbatim>\<open>GetCurrentThread\<close> answers.\<close>

definition vos_threadSelf ::
  "HANDLE option \<Rightarrow> HANDLE \<Rightarrow> vos_state \<Rightarrow> VOS_ERR_T \<times> HANDLE option \<times> vos_state" where
  "vos_threadSelf pThread cur s =
     (case pThread of
        None \<Rightarrow> (VOS_PARAM_ERR, None, s)
      | Some _ \<Rightarrow> (VOS_NO_ERR, Some cur, call GetCurrentThread s))"

definition vos_threadDelay :: "UINT32 \<Rightarrow> vos_state \<Rightarrow> VOS_ERR_T \<times> vos_state" where
  "vos_threadDelay delay s =
     (if delay < 1000
      then (VOS_PARAM_ERR,
            vos_printLog VOS_LOG_WARNING ''Win: thread delays < 1ms are not supported!'' s)
      else (VOS_NO_ERR, call (Sleep (delay div 1000)) s))"

subsection \<open>The cyclic thread\<close>

text \<open>
  What an uninitialised local \<^verbatim>\<open>VOS_TIMEVAL_T\<close> holds. \<^verbatim>\<open>vos_getTime\<close> overwrites it before
  anything reads it, so the choice does not show.
\<close>

definition uninit :: VOS_TIMEVAL_T where
  "uninit = \<lparr>tv_sec = 0, tv_usec = 0\<rparr>"

text \<open>
  Lines 106 to 133 of \<^verbatim>\<open>vos_cyclicThread\<close>: from \<open>afterCall\<close>, which holds the run time of the
  function, to \<open>waitingTime\<close>. The test against \<^verbatim>\<open>MAXSEC_FOR_USECPRESENTATION\<close> compares
  \<^verbatim>\<open>long\<close> with \<^verbatim>\<open>int\<close> and is signed; \<open>execTime\<close> is computed and compared in \<^verbatim>\<open>UINT32\<close>.
\<close>

definition cyclic_waitingTime :: "UINT32 \<Rightarrow> VOS_TIMEVAL_T \<Rightarrow> vos_state \<Rightarrow> UINT32 \<times> vos_state" where
  "cyclic_waitingTime interval afterCall s =
     (if tv_sec afterCall \<le>s MAXSEC_FOR_USECPRESENTATION
      then
        (let execTime = tv_sec afterCall * 1000 * 1000 + tv_usec afterCall
         in if interval < execTime
            then (0, vos_printLog VOS_LOG_ERROR
                       ''cyclic thread with interval %d usec was running  %d usec'' s)
            else (interval - execTime, s))
      else (0, vos_printLog VOS_LOG_ERROR
                 ''cyclic thread with interval %d usec exceeded time out by running %d sec'' s))"

text \<open>
  One turn of the loop \<^verbatim>\<open>for (;; )\<close>. \<open>pFunction\<close> is what the thread function does to the
  state, \<open>now1\<close> and \<open>now2\<close> are what the clock answers before and after it. The result is
  the value of \<open>afterCall\<close> after the subtraction, the value of \<open>waitingTime\<close> passed to
  \<^verbatim>\<open>vos_threadDelay\<close>, and the state after the delay.
\<close>

definition vos_cyclicThread_cycle ::
  "UINT32 \<Rightarrow> (vos_state \<Rightarrow> vos_state) \<Rightarrow> timeb32 option \<Rightarrow> timeb32 option \<Rightarrow> vos_state \<Rightarrow>
   VOS_TIMEVAL_T \<times> UINT32 \<times> vos_state" where
  "vos_cyclicThread_cycle interval pFunction now1 now2 s =
     (let (priorCall, s1) = vos_getTime (Some uninit) now1 s;
          s2 = pFunction s1;
          (afterCall, s3) = vos_getTime (Some uninit) now2 s2;
          (afterCall', s4) = vos_subTime afterCall priorCall s3;
          (waitingTime, s5) = cyclic_waitingTime interval (the afterCall') s4;
          (_, s6) = vos_threadDelay waitingTime s5
      in (the afterCall', waitingTime, s6))"

text \<open>
  The loop never ends by itself. \<open>vos_cyclicThread\<close> runs as many turns as there are clock
  answers in the list and returns the state reached, which is the state the thread is in
  when it is stopped from outside after that many turns.
\<close>

fun vos_cyclicThread ::
  "UINT32 \<Rightarrow> (vos_state \<Rightarrow> vos_state) \<Rightarrow> (timeb32 option \<times> timeb32 option) list \<Rightarrow>
   vos_state \<Rightarrow> vos_state" where
  "vos_cyclicThread interval pFunction [] s = s"
| "vos_cyclicThread interval pFunction ((now1, now2) # clock) s =
     vos_cyclicThread interval pFunction clock
       (snd (snd (vos_cyclicThread_cycle interval pFunction now1 now2 s)))"

text \<open>The clock keeps its contract: \<^verbatim>\<open>millitm\<close> is a count of milliseconds below 1000.\<close>

definition clock_ok :: "timeb32 option \<Rightarrow> bool" where
  "clock_ok now = (case now of None \<Rightarrow> True | Some curTime \<Rightarrow> millitm curTime < 1000)"

subsection \<open>Identifiers\<close>

text \<open>
  \<^verbatim>\<open>vos_getUuid\<close>. \<open>now\<close> is what the clock answers. \<open>mac\<close> is what \<^verbatim>\<open>vos_sockGetMAC\<close> answers:
  its error code and the six bytes found in \<^verbatim>\<open>pUuID[10..15]\<close> when it returns.

  Modelled from the spec: \<^verbatim>\<open>vos_sockGetMAC\<close> (vos_sock.c is not among the sources), the
  "network-information collaborator"; "its failure is logged but does not block UniqueId
  production (the hardware-address bytes are simply left unset/garbage on failure)". So
  nothing is assumed of the six bytes.

  The masks \<^verbatim>\<open>0xFF00\<close> and \<^verbatim>\<open>0xFF0000\<close> clear the sign bit before the shift and
  \<^verbatim>\<open>0xFF000000\<close> is an unsigned constant, so every shift is a logical one. The result is
  the sixteen bytes and the state, in which \<open>count\<close> has gone up by one.
\<close>

definition vos_getUuid ::
  "timeb32 option \<Rightarrow> VOS_ERR_T \<times> UINT8 list \<Rightarrow> vos_state \<Rightarrow> UINT8 list \<times> vos_state" where
  "vos_getUuid now mac s =
     (let (cur, s1) = vos_getTime (Some uninit) now s;
          current = the cur;
          pUuID =
            [ucast (tv_usec current AND 0xFF),
             ucast (drop_bit 8 (tv_usec current AND 0xFF00)),
             ucast (drop_bit 16 (tv_usec current AND 0xFF0000)),
             ucast (drop_bit 24 (tv_usec current AND 0xFF000000)),
             ucast (tv_sec current AND 0xFF),
             ucast (drop_bit 8 (tv_sec current AND 0xFF00)),
             ucast (drop_bit 16 (tv_sec current AND 0xFF0000)),
             ucast (drop_bit 24 (tv_sec current AND 0x0F000000) OR 0x4),
             ucast (count s1 AND 0xFF),
             ucast (drop_bit 8 (count s1))];
          s2 = s1\<lparr>count := count s1 + 1\<rparr>;
          s3 = call SockGetMAC s2;
          s4 = (if fst mac \<noteq> VOS_NO_ERR
                then vos_printLog VOS_LOG_ERROR ''vos_sockGetMAC() failed (Err:%d)'' s3
                else s3)
      in (pUuID @ snd mac, s4))"

text \<open>
  Successive calls in one process: one clock answer and one answer of \<^verbatim>\<open>vos_sockGetMAC\<close>
  for each call. The result lists the identifiers in the order they were generated.
\<close>

fun uuid_calls :: "(timeb32 option \<times> VOS_ERR_T \<times> UINT8 list) list \<Rightarrow> vos_state \<Rightarrow> UINT8 list list" where
  "uuid_calls [] s = []"
| "uuid_calls ((now, mac) # env) s =
     fst (vos_getUuid now mac s) # uuid_calls env (snd (vos_getUuid now mac s))"

subsection \<open>Mutexes\<close>

text \<open>The answers of \<^verbatim>\<open>WaitForSingleObject\<close> and the time-out \<^verbatim>\<open>INFINITE\<close> (winbase.h).\<close>

definition WAIT_OBJECT_0 :: DWORD where
  "WAIT_OBJECT_0 = 0"

definition WAIT_ABANDONED :: DWORD where
  "WAIT_ABANDONED = 0x80"

definition WAIT_TIMEOUT :: DWORD where
  "WAIT_TIMEOUT = 0x102"

definition WAIT_FAILED :: DWORD where
  "WAIT_FAILED = 0xFFFFFFFF"

definition INFINITE :: DWORD where
  "INFINITE = 0xFFFFFFFF"

text \<open>
  A \<^verbatim>\<open>VOS_MUTEX_T\<close> is a pointer to a \<^verbatim>\<open>struct VOS_MUTEX\<close>: \<open>None\<close> for \<^verbatim>\<open>NULL\<close>, \<open>Some a\<close>
  for the address \<open>a\<close>, whose contents are \<open>mutexMem s a\<close>.
\<close>

definition mutex_invalid :: "nat option \<Rightarrow> vos_state \<Rightarrow> bool" where
  "mutex_invalid pMutex s =
     (case pMutex of None \<Rightarrow> True | Some a \<Rightarrow> magicNo (mutexMem s a) \<noteq> cMutextMagic)"

text \<open>\<^verbatim>\<open>vos_mutexLocalCreate\<close>: \<open>hMutex\<close> is what \<^verbatim>\<open>CreateMutex\<close> answers.\<close>

definition vos_mutexLocalCreate :: "nat option \<Rightarrow> HANDLE \<Rightarrow> vos_state \<Rightarrow> VOS_ERR_T \<times> vos_state" where
  "vos_mutexLocalCreate pMutex hMutex s =
     (case pMutex of
        None \<Rightarrow> (VOS_PARAM_ERR, s)
      | Some a \<Rightarrow>
          (let s1 = call CreateMutexCall s
           in if hMutex = 0
              then (VOS_MUTEX_ERR,
                    vos_printLog VOS_LOG_ERROR ''Can not create Mutex(winthread err=%d)'' s1)
              else (VOS_NO_ERR,
                    s1\<lparr>mutexMem := (mutexMem s1)(a := \<lparr>mutexId = hMutex, magicNo = cMutextMagic\<rparr>)\<rparr>)))"

text \<open>\<^verbatim>\<open>vos_mutexDelete\<close>: \<open>closed\<close> is what \<^verbatim>\<open>CloseHandle\<close> answers.\<close>

definition vos_mutexDelete :: "nat option \<Rightarrow> 32 word \<Rightarrow> vos_state \<Rightarrow> vos_state" where
  "vos_mutexDelete pMutex closed s =
     (if mutex_invalid pMutex s
      then vos_printLog VOS_LOG_ERROR ''vos_mutexDelete() ERROR invalid parameter'' s
      else
        (let a = the pMutex;
             s1 = call (CloseHandle (mutexId (mutexMem s a))) s
         in if closed \<noteq> 0
            then s1\<lparr>mutexMem := (mutexMem s1)(a := (mutexMem s1 a)\<lparr>magicNo := 0\<rparr>)\<rparr>
            else vos_printLog VOS_LOG_ERROR ''Can not destroy Mutex (Mutex error err=%d)''
                   (call GetLastError s1)))"

definition vos_mutexLocalDelete :: "nat option \<Rightarrow> 32 word \<Rightarrow> vos_state \<Rightarrow> vos_state" where
  "vos_mutexLocalDelete pMutex closed s = vos_mutexDelete pMutex closed s"

text \<open>\<^verbatim>\<open>vos_mutexLock\<close>: \<open>dwWaitResult\<close> is what \<^verbatim>\<open>WaitForSingleObject\<close> answers.\<close>

definition vos_mutexLock :: "nat option \<Rightarrow> DWORD \<Rightarrow> vos_state \<Rightarrow> VOS_ERR_T \<times> vos_state" where
  "vos_mutexLock pMutex dwWaitResult s =
     (if mutex_invalid pMutex s then (VOS_PARAM_ERR, s)
      else
        (let s1 = call (WaitForSingleObject (mutexId (mutexMem s (the pMutex))) INFINITE) s
         in if dwWaitResult \<noteq> WAIT_OBJECT_0
            then (VOS_MUTEX_ERR,
                  vos_printLog VOS_LOG_ERROR ''Unable to lock Mutex (winthread err=%d)''
                    (call GetLastError s1))
            else (VOS_NO_ERR, s1)))"

definition vos_mutexTryLock :: "nat option \<Rightarrow> DWORD \<Rightarrow> vos_state \<Rightarrow> VOS_ERR_T \<times> vos_state" where
  "vos_mutexTryLock pMutex dwWaitResult s =
     (if mutex_invalid pMutex s then (VOS_PARAM_ERR, s)
      else
        (let s1 = call (WaitForSingleObject (mutexId (mutexMem s (the pMutex))) 0) s
         in if dwWaitResult = WAIT_OBJECT_0 then (VOS_NO_ERR, s1)
            else if dwWaitResult = WAIT_FAILED
            then (VOS_MUTEX_ERR,
                  vos_printLog VOS_LOG_ERROR ''Unable to trylock Mutex (Mutex err=%d)''
                    (call GetLastError s1))
            else if dwWaitResult = WAIT_TIMEOUT \<or> dwWaitResult = WAIT_ABANDONED
            then (VOS_INUSE_ERR, s1)
            else (VOS_MUTEX_ERR, s1)))"

text \<open>\<^verbatim>\<open>vos_mutexUnlock\<close>: \<open>released\<close> is what \<^verbatim>\<open>ReleaseMutex\<close> answers.\<close>

definition vos_mutexUnlock :: "nat option \<Rightarrow> 32 word \<Rightarrow> vos_state \<Rightarrow> VOS_ERR_T \<times> vos_state" where
  "vos_mutexUnlock pMutex released s =
     (if mutex_invalid pMutex s
      then (VOS_PARAM_ERR,
            vos_printLog VOS_LOG_ERROR ''vos_mutexUnlock() ERROR invalid parameter'' s)
      else
        (let s1 = call (ReleaseMutex (mutexId (mutexMem s (the pMutex)))) s
         in if released = 0
            then (VOS_MUTEX_ERR,
                  vos_printLog VOS_LOG_ERROR ''Unable to unlock Mutex (Mutex err=%d)''
                    (call GetLastError s1))
            else (VOS_NO_ERR, s1)))"

text \<open>
  A call of one of the four operations on a mutex, with the answer the operating system
  would give it, and a run of such calls on one handle. \<^verbatim>\<open>vos_mutexDelete\<close> returns nothing:
  its code is \<open>None\<close>.
\<close>

datatype mutex_op = Lock DWORD | TryLock DWORD | Unlock "32 word" | Delete "32 word"

fun mutex_call :: "nat option \<Rightarrow> mutex_op \<Rightarrow> vos_state \<Rightarrow> VOS_ERR_T option \<times> vos_state" where
  "mutex_call pMutex (Lock w) s = map_prod Some id (vos_mutexLock pMutex w s)"
| "mutex_call pMutex (TryLock w) s = map_prod Some id (vos_mutexTryLock pMutex w s)"
| "mutex_call pMutex (Unlock r) s = map_prod Some id (vos_mutexUnlock pMutex r s)"
| "mutex_call pMutex (Delete c) s = (None, vos_mutexDelete pMutex c s)"

fun mutex_calls :: "nat option \<Rightarrow> mutex_op list \<Rightarrow> vos_state \<Rightarrow> VOS_ERR_T option list \<times> vos_state" where
  "mutex_calls pMutex [] s = ([], s)"
| "mutex_calls pMutex (x # xs) s =
     (let (r, s1) = mutex_call pMutex x s;
          (rs, s2) = mutex_calls pMutex xs s1
      in (r # rs, s2))"

text \<open>
  The invalid-parameter outcome of each operation: \<^verbatim>\<open>VOS_PARAM_ERR\<close> from the three that
  return a code, an error in the log from \<^verbatim>\<open>vos_mutexUnlock\<close> and \<^verbatim>\<open>vos_mutexDelete\<close>, and in
  every case no native call and no change of any mutex.
\<close>

fun invalid_parameter :: "mutex_op \<Rightarrow> vos_state \<Rightarrow> VOS_ERR_T option \<times> vos_state" where
  "invalid_parameter (Lock w) s = (Some VOS_PARAM_ERR, s)"
| "invalid_parameter (TryLock w) s = (Some VOS_PARAM_ERR, s)"
| "invalid_parameter (Unlock r) s =
     (Some VOS_PARAM_ERR,
      s\<lparr>logged := logged s @ [(VOS_LOG_ERROR, ''vos_mutexUnlock() ERROR invalid parameter'')]\<rparr>)"
| "invalid_parameter (Delete c) s =
     (None, s\<lparr>logged := logged s @ [(VOS_LOG_ERROR, ''vos_mutexDelete() ERROR invalid parameter'')]\<rparr>)"

fun all_invalid_parameter :: "mutex_op list \<Rightarrow> vos_state \<Rightarrow> VOS_ERR_T option list \<times> vos_state" where
  "all_invalid_parameter [] s = ([], s)"
| "all_invalid_parameter (x # xs) s =
     (let (r, s1) = invalid_parameter x s;
          (rs, s2) = all_invalid_parameter xs s1
      in (r # rs, s2))"

subsection \<open>Semaphores\<close>

text \<open>
  A \<^verbatim>\<open>VOS_SEMA_T\<close> is a pointer to a \<^verbatim>\<open>struct VOS_SEMA\<close>, which the two functions only read.

  \<^verbatim>\<open>vos_semaTake\<close>: \<open>dwWaitResult\<close> is what \<^verbatim>\<open>WaitForSingleObject\<close> answers. After the test
  for \<^verbatim>\<open>NULL\<close> the code goes on to evaluate \<^verbatim>\<open>sema->semaphore\<close>, the argument of the wait.
\<close>

definition vos_semaTake ::
  "VOS_SEMA option \<Rightarrow> UINT32 \<Rightarrow> DWORD \<Rightarrow> vos_state \<Rightarrow>
   (fault \<times> vos_state) + (VOS_ERR_T \<times> vos_state)" where
  "vos_semaTake sema timeout dwWaitResult s =
     (let (retVal, s1) =
            (if sema = None
             then (VOS_NOINIT_ERR,
                   vos_printLog VOS_LOG_ERROR
                     ''vos_semaTake() ERROR invalid parameter 'sema' == NULL'' s)
             else (VOS_SEMA_ERR, s))
      in case sema of
           None \<Rightarrow> Inl (NullDereference, s1)
         | Some sm \<Rightarrow>
             (let s2 = call (WaitForSingleObject (semaphore sm) (timeout div 1000)) s1
              in if dwWaitResult = WAIT_OBJECT_0 then Inr (VOS_NO_ERR, s2)
                 else if dwWaitResult = WAIT_FAILED
                 then Inr (VOS_SEMA_ERR,
                           vos_printLog VOS_LOG_ERROR ''Unable to trylock Mutex (Mutex err=%d)''
                             (call GetLastError s2))
                 else Inr (retVal, s2)))"

text \<open>
  \<^verbatim>\<open>vos_semaGive\<close>: \<open>released\<close> is what \<^verbatim>\<open>ReleaseSemaphore\<close> answers, a \<^verbatim>\<open>BOOL\<close> that is zero
  when the call failed. The code logs in the branch where it is not zero.
\<close>

definition vos_semaGive :: "VOS_SEMA option \<Rightarrow> 32 word \<Rightarrow> vos_state \<Rightarrow> vos_state" where
  "vos_semaGive sema released s =
     (case sema of
        None \<Rightarrow>
          vos_printLog VOS_LOG_ERROR ''vos_semaGive() ERROR invalid parameter 'sema' == NULL'' s
      | Some sm \<Rightarrow>
          (let s1 = call (ReleaseSemaphore (semaphore sm)) s
           in if released = 0 then s1
              else vos_printLog VOS_LOG_ERROR
                     ''vos_semaGive() ERROR could not release semaphore'' s1))"

text \<open>
  The state a process starts in: \<^verbatim>\<open>vosThreadInitialised = FALSE\<close>, \<^verbatim>\<open>count = 1\<close>, nothing
  logged, nothing called, and no mutex stamped.
\<close>

definition initial_state :: vos_state where
  "initial_state =
     \<lparr>vosThreadInitialised = False, count = 1,
      mutexMem = (\<lambda>_. \<lparr>mutexId = 0, magicNo = 0\<rparr>), logged = [], native = []\<rparr>"

text \<open>
  The invariant the specification puts on a time value: \<open>0 \<le> tv_usec < 1000000\<close>, read
  as the signed \<^verbatim>\<open>long\<close> it is. \<open>valid_result\<close> says it of the time a call left behind.
\<close>

definition valid_usec :: "VOS_TIMEVAL_T \<Rightarrow> bool" where
  "valid_usec t \<longleftrightarrow> 0 \<le>s tv_usec t \<and> tv_usec t <s 1000000"

definition valid_result :: "VOS_TIMEVAL_T option \<times> vos_state \<Rightarrow> bool" where
  "valid_result r = (case fst r of Some t \<Rightarrow> valid_usec t | None \<Rightarrow> False)"

text \<open>The 16-bit number that bytes 8 and 9 of an identifier spell, low byte first.\<close>

definition counter_of :: "UINT8 list \<Rightarrow> UINT16" where
  "counter_of u = ucast (u ! 8) OR push_bit 8 (ucast (u ! 9))"


section \<open>Properties\<close>

subsection \<open>Words read as signed and unsigned\<close>

lemma sint_of_small_uint:
  fixes x :: "32 word"
  assumes "uint x < 2 ^ 31"
  shows "sint x = uint x"
proof -
  have lo: "- (2 ^ 31) \<le> uint x"
    by (rule order_trans [of _ 0]) simp_all
  have "signed_take_bit 31 (uint x) = uint x"
    using lo assms by (rule signed_take_bit_int_eq_self)
  then show ?thesis
    by (simp add: sint_uint)
qed

lemma uint_of_nonneg_sint:
  fixes x :: "32 word"
  assumes "0 \<le> sint x"
  shows "uint x = sint x"
proof -
  have "sint x < 2 ^ 31"
    using sint_lt [of x] by simp
  then have "take_bit 32 (sint x) = sint x"
    using assms by (intro take_bit_int_eq_self) simp_all
  then show ?thesis
    by (simp add: uint_sint)
qed

lemma sint_add_small:
  fixes x y :: "32 word"
  assumes "0 \<le> sint x" "sint x < 1000000" "0 \<le> sint y" "sint y < 1000000"
  shows "sint (x + y) = sint x + sint y"
proof -
  have "sint (x + y) = signed_take_bit 31 (sint x + sint y)"
    by (simp add: sint_word_add)
  also have "\<dots> = sint x + sint y"
    using assms by (intro signed_take_bit_int_eq_self) simp_all
  finally show ?thesis .
qed

lemma sint_sub_small:
  fixes x y :: "32 word"
  assumes "0 \<le> sint x" "sint x < 2000000" "0 \<le> sint y" "sint y < 2000000"
  shows "sint (x - y) = sint x - sint y"
proof -
  have "sint (x - y) = signed_take_bit 31 (sint x - sint y)"
    by (simp add: sint_word_diff)
  also have "\<dots> = sint x - sint y"
    using assms by (intro signed_take_bit_int_eq_self) simp_all
  finally show ?thesis .
qed

lemma int_div_less_bound:
  fixes x d :: int
  assumes "x < 1000000 * d" and "0 < d"
  shows "x div d < 1000000"
proof (rule ccontr)
  assume "\<not> x div d < 1000000"
  then have "1000000 \<le> x div d"
    by simp
  then have "d * 1000000 \<le> d * (x div d)"
    using assms(2) by (intro mult_left_mono) simp_all
  moreover have "0 \<le> x mod d"
    using assms(2) by (rule pos_mod_sign)
  moreover have "d * (x div d) + x mod d = x"
    by (rule mult_div_mod_eq)
  ultimately show False
    using assms(1) by linarith
qed

subsection \<open>The microsecond field\<close>

lemma valid_usec_sint: "valid_usec t \<longleftrightarrow> 0 \<le> sint (tv_usec t) \<and> sint (tv_usec t) < 1000000"
  by (simp add: valid_usec_def word_sle_eq word_sless_alt)

lemma valid_usec_uint: "valid_usec t \<longleftrightarrow> uint (tv_usec t) < 1000000"
proof
  assume "valid_usec t"
  then have "0 \<le> sint (tv_usec t)" "sint (tv_usec t) < 1000000"
    by (simp_all add: valid_usec_sint)
  with uint_of_nonneg_sint [of "tv_usec t"] show "uint (tv_usec t) < 1000000"
    by simp
next
  assume lt: "uint (tv_usec t) < 1000000"
  then have "sint (tv_usec t) = uint (tv_usec t)"
    by (intro sint_of_small_uint) simp
  with lt show "valid_usec t"
    by (simp add: valid_usec_sint)
qed

lemma carry_loop_stop: "\<not> 1000000 \<le>s tv_usec t \<Longrightarrow> carry_loop t = t"
  by (subst carry_loop.simps) simp

lemma carry_loop_step:
  "1000000 \<le>s tv_usec t \<Longrightarrow>
   carry_loop t = carry_loop (t\<lparr>tv_sec := tv_sec t + 1, tv_usec := tv_usec t - 1000000\<rparr>)"
  by (subst carry_loop.simps) simp

text \<open>The loop leaves a microsecond count in range whenever it starts from one that is not negative.\<close>

lemma carry_loop_valid: "0 \<le> sint (tv_usec t) \<Longrightarrow> valid_usec (carry_loop t)"
proof (induction t rule: carry_loop.induct)
  case (1 t)
  show ?case
  proof (cases "1000000 \<le>s tv_usec t")
    case True
    then have "sint (tv_usec t - 1000000) = sint (tv_usec t) - 1000000"
      by (rule sint_sub_million)
    moreover from True have "1000000 \<le> sint (tv_usec t)"
      by (simp add: word_sle_eq)
    ultimately have "0 \<le> sint (tv_usec (t\<lparr>tv_sec := tv_sec t + 1, tv_usec := tv_usec t - 1000000\<rparr>))"
      by simp
    with "1.IH" [OF True] show ?thesis
      by (simp add: carry_loop_step [OF True])
  next
    case False
    with "1.prems" show ?thesis
      by (simp add: carry_loop_stop valid_usec_sint word_sle_eq)
  qed
qed

text \<open>It leaves a negative count as it found it.\<close>

lemma carry_loop_negative: "sint (tv_usec t) < 0 \<Longrightarrow> carry_loop t = t"
  by (rule carry_loop_stop) (simp add: word_sle_eq)

subsection \<open>Adding, subtracting, dividing and multiplying time values\<close>

lemma add_sub_roundtrip:
  assumes a: "valid_usec a" and b: "valid_usec b"
  shows "fst (vos_subTime (fst (vos_addTime (Some a) (Some b) s)) (Some b) s') = Some a"
proof -
  let ?sum = "\<lparr>tv_sec = tv_sec a + tv_sec b, tv_usec = tv_usec a + tv_usec b\<rparr>"
  from a b have ra: "0 \<le> sint (tv_usec a)" "sint (tv_usec a) < 1000000"
    and rb: "0 \<le> sint (tv_usec b)" "sint (tv_usec b) < 1000000"
    by (simp_all add: valid_usec_sint)
  have sum: "sint (tv_usec a + tv_usec b) = sint (tv_usec a) + sint (tv_usec b)"
    using ra rb by (rule sint_add_small)
  show ?thesis
  proof (cases "1000000 \<le>s tv_usec a + tv_usec b")
    case False
    then have cl: "carry_loop ?sum = ?sum"
      by (simp add: carry_loop_stop)
    have "\<not> tv_usec a + tv_usec b <s tv_usec b"
      using sum ra by (simp add: word_sless_alt)
    then show ?thesis
      by (simp add: vos_addTime_def vos_subTime_def cl)
  next
    case True
    then have ge: "1000000 \<le> sint (tv_usec a) + sint (tv_usec b)"
      using sum by (simp add: word_sle_eq)
    have red: "sint (tv_usec a + tv_usec b - 1000000) = sint (tv_usec a) + sint (tv_usec b) - 1000000"
      using sint_sub_million [OF True] sum by simp
    then have "\<not> 1000000 \<le>s tv_usec a + tv_usec b - 1000000"
      using ra rb by (simp add: word_sle_eq)
    then have cl: "carry_loop ?sum =
        \<lparr>tv_sec = tv_sec a + tv_sec b + 1, tv_usec = tv_usec a + tv_usec b - 1000000\<rparr>"
      using True by (simp add: carry_loop_step carry_loop_stop)
    have "tv_usec a + tv_usec b - 1000000 <s tv_usec b"
      using red ra by (simp add: word_sless_alt)
    then show ?thesis
      by (simp add: vos_addTime_def vos_subTime_def cl)
  qed
qed

lemma addTime_valid:
  assumes "valid_usec a" "valid_usec b"
  shows "valid_result (vos_addTime (Some a) (Some b) s)"
proof -
  from assms have "0 \<le> sint (tv_usec a)" "sint (tv_usec a) < 1000000"
    "0 \<le> sint (tv_usec b)" "sint (tv_usec b) < 1000000"
    by (simp_all add: valid_usec_sint)
  then have "0 \<le> sint (tv_usec a + tv_usec b)"
    by (simp add: sint_add_small)
  then have "valid_usec (carry_loop \<lparr>tv_sec = tv_sec a + tv_sec b, tv_usec = tv_usec a + tv_usec b\<rparr>)"
    by (intro carry_loop_valid) simp
  then show ?thesis
    by (simp add: valid_result_def vos_addTime_def)
qed

lemma subTime_valid:
  assumes "valid_usec a" "valid_usec b"
  shows "valid_result (vos_subTime (Some a) (Some b) s)"
proof -
  from assms have ra: "0 \<le> sint (tv_usec a)" "sint (tv_usec a) < 1000000"
    and rb: "0 \<le> sint (tv_usec b)" "sint (tv_usec b) < 1000000"
    by (simp_all add: valid_usec_sint)
  show ?thesis
  proof (cases "tv_usec a <s tv_usec b")
    case True
    then have lt: "sint (tv_usec a) < sint (tv_usec b)"
      by (simp add: word_sless_alt)
    have "sint (tv_usec a + 1000000) = signed_take_bit 31 (sint (tv_usec a) + 1000000)"
      by (simp add: sint_word_add)
    also have "\<dots> = sint (tv_usec a) + 1000000"
      using ra by (intro signed_take_bit_int_eq_self) simp_all
    finally have up: "sint (tv_usec a + 1000000) = sint (tv_usec a) + 1000000" .
    have "sint (tv_usec a + 1000000 - tv_usec b) = sint (tv_usec a + 1000000) - sint (tv_usec b)"
      using ra rb up by (intro sint_sub_small) simp_all
    with up lt ra rb True show ?thesis
      by (simp add: valid_result_def vos_subTime_def valid_usec_sint)
  next
    case False
    then have "sint (tv_usec b) \<le> sint (tv_usec a)"
      by (simp add: word_sless_alt)
    moreover have "sint (tv_usec a - tv_usec b) = sint (tv_usec a) - sint (tv_usec b)"
      using ra rb by (intro sint_sub_small) simp_all
    ultimately show ?thesis
      using False ra rb by (simp add: valid_result_def vos_subTime_def valid_usec_sint)
  qed
qed

lemma div_usec_bound:
  fixes usec sec divisor :: "32 word"
  assumes u: "uint usec < 1000000" and d: "divisor \<noteq> 0"
  shows "uint ((if 0 < sec mod divisor then usec + sec mod divisor * 1000000 else usec) div divisor)
           < 1000000"
proof -
  let ?temp = "sec mod divisor"
  define x where "x = (if 0 < ?temp then usec + ?temp * 1000000 else usec)"
  have dpos: "0 < uint divisor"
    using d uint_nonnegative [of divisor] uint_0_iff [of divisor] by linarith
  have temp: "uint ?temp < uint divisor"
    using dpos by (simp add: uint_mod)
  have "uint (?temp * 1000000) \<le> uint ?temp * 1000000"
    by (simp add: uint_word_ariths zmod_le_nonneg_dividend)
  moreover have "uint (usec + ?temp * 1000000) \<le> uint usec + uint (?temp * 1000000)"
    by (simp add: uint_word_ariths zmod_le_nonneg_dividend)
  ultimately have "uint (usec + ?temp * 1000000) \<le> uint usec + uint ?temp * 1000000"
    by linarith
  then have "uint x \<le> uint usec + uint ?temp * 1000000"
    by (simp add: x_def)
  also have "\<dots> < 1000000 + uint ?temp * 1000000"
    using u by simp
  also have "\<dots> \<le> uint divisor * 1000000"
    using temp by simp
  finally have "uint x < 1000000 * uint divisor"
    by (simp add: mult.commute)
  then have "uint x div uint divisor < 1000000"
    using dpos by (rule int_div_less_bound)
  then have "uint (x div divisor) < 1000000"
    by (simp add: uint_div)
  then show ?thesis
    by (simp only: x_def)
qed

lemma divTime_valid:
  assumes "valid_usec a"
  shows "valid_result (vos_divTime (Some a) k s)"
proof (cases "k = 0")
  case True
  with assms show ?thesis
    by (simp add: valid_result_def vos_divTime_def)
next
  case False
  from assms have "uint (tv_usec a) < 1000000"
    by (simp add: valid_usec_uint)
  from div_usec_bound [OF this False, of "tv_sec a"] False show ?thesis
    by (simp add: valid_result_def vos_divTime_def valid_usec_uint Let_def)
qed

lemma mulTime_valid_iff:
  "valid_result (vos_mulTime (Some a) k s) \<longleftrightarrow> 0 \<le>s tv_usec a * k"
proof (cases "0 \<le>s tv_usec a * k")
  case True
  then have "0 \<le> sint (tv_usec \<lparr>tv_sec = tv_sec a * k, tv_usec = tv_usec a * k\<rparr>)"
    by (simp add: word_sle_eq)
  then have "valid_usec (carry_loop \<lparr>tv_sec = tv_sec a * k, tv_usec = tv_usec a * k\<rparr>)"
    by (rule carry_loop_valid)
  with True show ?thesis
    by (simp add: valid_result_def vos_mulTime_def)
next
  case False
  then have neg: "sint (tv_usec \<lparr>tv_sec = tv_sec a * k, tv_usec = tv_usec a * k\<rparr>) < 0"
    by (simp add: word_sle_eq)
  have "carry_loop \<lparr>tv_sec = tv_sec a * k, tv_usec = tv_usec a * k\<rparr>
          = \<lparr>tv_sec = tv_sec a * k, tv_usec = tv_usec a * k\<rparr>"
    using neg by (rule carry_loop_negative)
  with False show ?thesis
    by (simp add: valid_result_def vos_mulTime_def valid_usec_def)
qed

lemma mul_usec_nonneg:
  fixes u k :: "32 word"
  assumes "uint u * uint k < 2 ^ 31"
  shows "0 \<le>s u * k"
proof -
  have "uint (u * k) \<le> uint u * uint k"
    by (simp add: uint_word_ariths zmod_le_nonneg_dividend)
  with assms have "uint (u * k) < 2 ^ 31"
    by linarith
  then have "sint (u * k) = uint (u * k)"
    by (rule sint_of_small_uint)
  then show ?thesis
    by (simp add: word_sle_eq)
qed

text \<open>
  What holds of time values whose microsecond fields are in \<open>[0, 1000000)\<close>: adding \<open>b\<close> to
  \<open>a\<close> and then subtracting \<open>b\<close> gives back exactly \<open>a\<close>, and after \<^verbatim>\<open>vos_addTime\<close>,
  \<^verbatim>\<open>vos_subTime\<close> and \<^verbatim>\<open>vos_divTime\<close> (by any divisor, zero included) the microsecond field
  is in \<open>[0, 1000000)\<close> again.
\<close>

lemma timeval_add_sub_div_range:
  assumes "valid_usec a" and "valid_usec b"
  shows "fst (vos_subTime (fst (vos_addTime (Some a) (Some b) s)) (Some b) s) = Some a
       \<and> valid_result (vos_addTime (Some a) (Some b) s)
       \<and> valid_result (vos_subTime (Some a) (Some b) s)
       \<and> valid_result (vos_divTime (Some a) k s)"
  using assms
  by (simp add: add_sub_roundtrip addTime_valid subTime_valid divTime_valid)

text \<open>
  \<^verbatim>\<open>vos_mulTime\<close> normalises as long as the product of the microseconds and the factor is
  below \<open>2 ^ 31\<close>, the range of the \<^verbatim>\<open>long\<close> it is stored in.
\<close>

lemma mulTime_valid_without_overflow:
  assumes "uint (tv_usec a) * uint k < 2 ^ 31"
  shows "valid_result (vos_mulTime (Some a) k s)"
  using assms by (simp add: mulTime_valid_iff mul_usec_nonneg)

text \<open>
  Claim C4 says that after each of add, subtract, multiply and divide on time values whose
  microsecond fields are in \<open>[0, 1000000)\<close> the microsecond field is in \<open>[0, 1000000)\<close> again.
  The code of \<^verbatim>\<open>vos_mulTime\<close> at \<open>(0 s, 999999 us)\<close> times \<open>3000\<close>: the \<^verbatim>\<open>UINT32\<close> product
  \<open>2999997000\<close> is stored into the \<^verbatim>\<open>long\<close> field as \<open>-1294970296\<close>, the loop
  \<^verbatim>\<open>while (pTime->tv_usec >= 1000000)\<close> that is there to normalise does not run, and the
  microsecond field is left negative. The function is documented to return the product,
  and the product, 2999 s and 997000 us, is a time value with its microseconds in range.
\<close>

theorem vos_mulTime_usec_out_of_range:
  "valid_usec \<lparr>tv_sec = 0, tv_usec = 999999\<rparr>
   \<and> fst (vos_mulTime (Some \<lparr>tv_sec = 0, tv_usec = 999999\<rparr>) 3000 s)
       = Some \<lparr>tv_sec = 0, tv_usec = - 1294970296\<rparr>
   \<and> \<not> valid_result (vos_mulTime (Some \<lparr>tv_sec = 0, tv_usec = 999999\<rparr>) 3000 s)
   \<and> (999999 * 3000 :: int) = 2999 * 1000000 + 997000
   \<and> valid_usec \<lparr>tv_sec = 2999, tv_usec = 997000\<rparr>"
proof -
  have neg: "sint (tv_usec \<lparr>tv_sec = 0 * 3000, tv_usec = 999999 * 3000 :: 32 word\<rparr>) < 0"
    by simp
  have "carry_loop \<lparr>tv_sec = 0 * 3000, tv_usec = 999999 * 3000\<rparr>
          = \<lparr>tv_sec = 0 * 3000, tv_usec = 999999 * 3000\<rparr>"
    using neg by (rule carry_loop_negative)
  then show ?thesis
    by (simp add: vos_mulTime_def valid_result_def valid_usec_def word_sle_eq word_sless_alt)
qed

text \<open>
  The same overflow where the wrapped product happens not to be negative: the loop then
  runs on the wrapped number. From a microsecond count that is not negative it moves every
  whole million into the seconds, so \<open>(0 s, 999999 us)\<close> times \<open>5000\<close>, whose product is
  4999 s and 995000 us, comes out as 705 s and 27704 us.
\<close>

lemma div_sub_million: "((x::int) - 1000000) div 1000000 = x div 1000000 - 1"
proof -
  have "(x - 1000000) div 1000000 = (x + (- 1) * 1000000) div 1000000"
    by simp
  also have "\<dots> = (- 1) + x div 1000000"
    by (rule div_mult_self1) simp
  finally show ?thesis by simp
qed
lemma mod_sub_million: "((x::int) - 1000000) mod 1000000 = x mod 1000000"
proof -
  have "(x - 1000000) mod 1000000 = (x + (- 1) * 1000000) mod 1000000"
    by simp
  also have "\<dots> = x mod 1000000"
    by (rule mod_mult_self1)
  finally show ?thesis .
qed


lemma carry_sec:
  fixes s :: "32 word"
  shows "s + 1 + word_of_int (d - 1) = s + word_of_int d"
  by (simp add: wi_hom_sub)

lemma carry_loop_closed_form:
  "0 \<le> sint (tv_usec t) \<Longrightarrow>
   carry_loop t = \<lparr>tv_sec = tv_sec t + word_of_int (sint (tv_usec t) div 1000000),
                   tv_usec = word_of_int (sint (tv_usec t) mod 1000000)\<rparr>"
proof (induction t rule: carry_loop.induct)
  case (1 t)
  show ?case
  proof (cases "1000000 \<le>s tv_usec t")
    case True
    let ?t' = "t\<lparr>tv_sec := tv_sec t + 1, tv_usec := tv_usec t - 1000000\<rparr>"
    have sel: "tv_sec ?t' = tv_sec t + 1" "tv_usec ?t' = tv_usec t - 1000000"
      by simp_all
    have red: "sint (tv_usec t - 1000000) = sint (tv_usec t) - 1000000"
      using True by (rule sint_sub_million)
    from True have ge: "1000000 \<le> sint (tv_usec t)"
      by (simp only: word_sle_eq) simp
    with red have nonneg: "0 \<le> sint (tv_usec ?t')"
      unfolding sel by linarith
    have IH: "carry_loop ?t' =
            \<lparr>tv_sec = tv_sec ?t' + word_of_int (sint (tv_usec ?t') div 1000000),
             tv_usec = word_of_int (sint (tv_usec ?t') mod 1000000)\<rparr>"
      using True nonneg by (rule "1.IH")
    have d: "sint (tv_usec t - 1000000) div 1000000 = sint (tv_usec t) div 1000000 - 1"
      unfolding red by (rule div_sub_million)
    have m: "sint (tv_usec t - 1000000) mod 1000000 = sint (tv_usec t) mod 1000000"
      unfolding red by (rule mod_sub_million)
    have "carry_loop t = carry_loop ?t'"
      using True by (rule carry_loop_step)
    also have "\<dots> = \<lparr>tv_sec = tv_sec t + 1 + word_of_int (sint (tv_usec t) div 1000000 - 1),
             tv_usec = word_of_int (sint (tv_usec t) mod 1000000)\<rparr>"
      unfolding IH unfolding sel unfolding d m ..
    finally show ?thesis
      unfolding carry_sec .
  next
    case False
    then have "sint (tv_usec t) < 1000000"
      by (simp add: word_sle_eq)
    with "1.prems" have "sint (tv_usec t) div 1000000 = 0" "sint (tv_usec t) mod 1000000 = sint (tv_usec t)"
      by simp_all
    with False show ?thesis
      by (simp add: carry_loop_stop)
  qed
qed

lemma vos_mulTime_wrapped_product:
  "fst (vos_mulTime (Some \<lparr>tv_sec = 0, tv_usec = 999999\<rparr>) 5000 s)
     = Some \<lparr>tv_sec = 705, tv_usec = 27704\<rparr>
   \<and> (999999 * 5000 :: int) = 4999 * 1000000 + 995000"
proof -
  have "0 \<le> sint (tv_usec \<lparr>tv_sec = 0 * 5000, tv_usec = 999999 * 5000 :: 32 word\<rparr>)"
    by simp
  from carry_loop_closed_form [OF this] show ?thesis
    by (simp add: vos_mulTime_def)
qed

subsection \<open>Division by zero and by one\<close>

text \<open>
  Claim C8. For every time value \<open>t\<close>, \<^verbatim>\<open>vos_divTime\<close> by \<open>0\<close> leaves seconds and
  microseconds of \<open>t\<close> as they were and reports the parameter error to the logging sink
  (one more entry, of level error, and nothing else changes); \<^verbatim>\<open>vos_divTime\<close> by \<open>1\<close> leaves
  \<open>t\<close> as it was and logs nothing.
\<close>

theorem vos_divTime_by_zero_and_one:
  "vos_divTime (Some t) 0 s
     = (Some t, s\<lparr>logged := logged s @ [(VOS_LOG_ERROR, ''ERROR NULL pointer/parameter'')]\<rparr>)
   \<and> vos_divTime (Some t) 1 s = (Some t, s)"
  by (simp add: vos_divTime_def vos_printLog_def)

subsection \<open>Comparing with a null pointer\<close>

text \<open>
  Claim C10. When at least one of the two arguments of \<^verbatim>\<open>vos_cmpTime\<close> is \<^verbatim>\<open>NULL\<close> the
  result is \<open>0\<close>, the outcome for equal times, and the state is untouched: nothing is
  logged. The other time operations do log an error for a null pointer: \<^verbatim>\<open>vos_addTime\<close>
  and \<^verbatim>\<open>vos_subTime\<close> on the same arguments, and \<^verbatim>\<open>vos_mulTime\<close>, \<^verbatim>\<open>vos_divTime\<close>,
  \<^verbatim>\<open>vos_clearTime\<close> and \<^verbatim>\<open>vos_getTime\<close> on \<^verbatim>\<open>NULL\<close>.
\<close>

theorem vos_cmpTime_null:
  assumes "pTime = None \<or> pCmp = None"
  shows "vos_cmpTime pTime pCmp s = (0, s)
       \<and> logged (snd (vos_addTime pTime pCmp s)) = logged s @ [(VOS_LOG_ERROR, ''ERROR NULL pointer'')]
       \<and> logged (snd (vos_subTime pTime pCmp s)) = logged s @ [(VOS_LOG_ERROR, ''ERROR NULL pointer'')]
       \<and> logged (snd (vos_mulTime None k s))
           = logged s @ [(VOS_LOG_ERROR, ''ERROR NULL pointer/parameter'')]
       \<and> logged (snd (vos_divTime None k s))
           = logged s @ [(VOS_LOG_ERROR, ''ERROR NULL pointer/parameter'')]
       \<and> logged (snd (vos_clearTime None s)) = logged s @ [(VOS_LOG_ERROR, ''ERROR NULL pointer'')]
       \<and> logged (snd (vos_getTime None ftime s)) = logged s @ [(VOS_LOG_ERROR, ''ERROR NULL pointer'')]"
  using assms
  by (auto simp: vos_cmpTime_def vos_addTime_def vos_subTime_def vos_mulTime_def vos_divTime_def
      vos_clearTime_def vos_getTime_def vos_printLog_def split: option.splits)

text \<open>The theorem with the first pointer null, and with the second.\<close>

theorem vos_cmpTime_null_witness:
  "vos_cmpTime None (Some \<lparr>tv_sec = 1, tv_usec = 2\<rparr>) initial_state = (0, initial_state)
   \<and> vos_cmpTime (Some \<lparr>tv_sec = 1, tv_usec = 2\<rparr>) None initial_state = (0, initial_state)
   \<and> logged (snd (vos_cmpTime None (Some \<lparr>tv_sec = 1, tv_usec = 2\<rparr>) initial_state)) = []
   \<and> logged (snd (vos_addTime None (Some \<lparr>tv_sec = 1, tv_usec = 2\<rparr>) initial_state))
       = [(VOS_LOG_ERROR, ''ERROR NULL pointer'')]
   \<and> logged (snd (vos_subTime (Some \<lparr>tv_sec = 1, tv_usec = 2\<rparr>) None initial_state))
       = [(VOS_LOG_ERROR, ''ERROR NULL pointer'')]"
  using vos_cmpTime_null [of None "Some \<lparr>tv_sec = 1, tv_usec = 2\<rparr>" initial_state]
    vos_cmpTime_null [of "Some \<lparr>tv_sec = 1, tv_usec = 2\<rparr>" None initial_state]
  by (simp add: initial_state_def)

subsection \<open>The waiting time of the cyclic thread\<close>

lemma vos_getTime_local:
  "vos_getTime (Some t) now s =
     (Some (case now of
              Some curTime \<Rightarrow> \<lparr>tv_sec = time curTime, tv_usec = ucast (millitm curTime) * 1000\<rparr>
            | None \<Rightarrow> \<lparr>tv_sec = 0, tv_usec = 0\<rparr>),
      call Ftime32 s)"
  by (simp add: vos_getTime_def split: option.splits)

lemma millitm_usec:
  fixes m :: "16 word"
  assumes "m < 1000"
  shows "uint (ucast m * 1000 :: 32 word) < 1000000"
proof -
  have m: "uint m < 1000"
    using assms by (simp add: word_less_def)
  have "uint (ucast m :: 32 word) = uint m"
    by (simp add: uint_up_ucast is_up)
  then have "uint (ucast m * 1000 :: 32 word) = (uint m * 1000) mod 2 ^ 32"
    by (simp add: uint_word_ariths)
  also have "\<dots> \<le> uint m * 1000"
    by (rule zmod_le_nonneg_dividend) simp
  finally show ?thesis
    using m by linarith
qed

lemma clock_valid:
  assumes "clock_ok now"
  shows "valid_result (vos_getTime (Some t) now s)"
proof (cases now)
  case None
  then show ?thesis
    by (simp add: vos_getTime_local valid_result_def valid_usec_uint)
next
  case (Some curTime)
  with assms have "millitm curTime < 1000"
    by (simp add: clock_ok_def)
  then have "uint (ucast (millitm curTime) * 1000 :: 32 word) < 1000000"
    by (rule millitm_usec)
  with Some show ?thesis
    by (simp add: vos_getTime_local valid_result_def valid_usec_uint)
qed

lemma exec_lossless:
  fixes sec usec :: "32 word"
  assumes "0 \<le>s sec" "sec \<le>s 4293" "0 \<le>s usec" "usec <s 1000000"
  shows "uint (sec * 1000 * 1000 + usec) = sint sec * 1000000 + sint usec"
proof -
  from assms have s: "0 \<le> sint sec" "sint sec \<le> 4293" and u: "0 \<le> sint usec" "sint usec < 1000000"
    by (simp_all add: word_sle_eq word_sless_alt)
  have us: "uint sec = sint sec" and uu: "uint usec = sint usec"
    using s u by (simp_all add: uint_of_nonneg_sint)
  have "uint (sec * 1000 * 1000 + usec) = (uint sec * 1000000 + uint usec) mod 2 ^ 32"
    by (simp add: uint_word_ariths mod_simps mult.commute)
  also have "\<dots> = uint sec * 1000000 + uint usec"
    using s u us uu by (intro mod_pos_pos_trivial) simp_all
  finally show ?thesis
    by (simp add: us uu)
qed


text \<open>
  Claim C3. In a turn of the cyclic thread, whatever the thread function does, with clock
  answers that keep their contract: \<open>elapsed\<close> is the second clock reading minus the first,
  computed by \<^verbatim>\<open>vos_subTime\<close>. If \<open>0 \<le> elapsed.seconds \<le> 4293\<close>, the \<^verbatim>\<open>UINT32\<close> the code
  computes, \<^verbatim>\<open>tv_sec * 1000 * 1000 + tv_usec\<close>, is the number
  \<open>execMicros = elapsed.seconds * 1000000 + elapsed.microseconds\<close> without loss; when
  \<open>execMicros \<le> interval\<close> the waiting time is \<open>interval - execMicros\<close> and nothing is logged
  before the delay; when \<open>execMicros > interval\<close> the waiting time is \<open>0\<close> and an error is
  logged. If \<open>elapsed.seconds\<close> is above 4293, the waiting time is \<open>0\<close> and an error is
  logged. In all three cases the turn ends with \<^verbatim>\<open>vos_threadDelay\<close> of the waiting time.
\<close>

theorem cyclic_waitingTime_correct:
  assumes "clock_ok now1" and "clock_ok now2"
    and "vos_cyclicThread_cycle interval pFunction now1 now2 s = (elapsed, waitingTime, s')"
  shows "Some elapsed
           = fst (vos_subTime (fst (vos_getTime (Some uninit) now2 s))
                    (fst (vos_getTime (Some uninit) now1 s)) s)
       \<and> (0 \<le>s tv_sec elapsed \<and> tv_sec elapsed \<le>s 4293 \<longrightarrow>
            (let execMicros = sint (tv_sec elapsed) * 1000000 + sint (tv_usec elapsed);
                 s0 = call Ftime32 (pFunction (call Ftime32 s))
             in uint (tv_sec elapsed * 1000 * 1000 + tv_usec elapsed) = execMicros
                \<and> (execMicros \<le> uint interval \<longrightarrow>
                      uint waitingTime = uint interval - execMicros
                      \<and> s' = snd (vos_threadDelay waitingTime s0))
                \<and> (uint interval < execMicros \<longrightarrow>
                      waitingTime = 0
                      \<and> s' = snd (vos_threadDelay 0
                                (vos_printLog VOS_LOG_ERROR
                                   ''cyclic thread with interval %d usec was running  %d usec'' s0)))))
       \<and> (4293 <s tv_sec elapsed \<longrightarrow>
            waitingTime = 0
            \<and> s' = snd (vos_threadDelay 0
                      (vos_printLog VOS_LOG_ERROR
                         ''cyclic thread with interval %d usec exceeded time out by running %d sec''
                         (call Ftime32 (pFunction (call Ftime32 s))))))"
proof -
  define s0 where "s0 = call Ftime32 (pFunction (call Ftime32 s))"
  obtain priorCall where prior: "vos_getTime (Some uninit) now1 s = (Some priorCall, call Ftime32 s)"
    by (simp add: vos_getTime_local)
  obtain afterCall where after: "\<And>x. vos_getTime (Some uninit) now2 x = (Some afterCall, call Ftime32 x)"
    by (simp add: vos_getTime_local)
  have vp: "valid_usec priorCall"
    using clock_valid [OF assms(1), of uninit s] by (simp add: prior valid_result_def)
  have va: "valid_usec afterCall"
    using clock_valid [OF assms(2), of uninit s] by (simp add: after valid_result_def)
  obtain d where sub: "\<And>x. vos_subTime (Some afterCall) (Some priorCall) x = (Some d, x)"
    by (simp add: vos_subTime_def Let_def)
  have vd: "valid_usec d"
    using subTime_valid [OF va vp, of s] by (simp add: sub valid_result_def)
  have cyc: "vos_cyclicThread_cycle interval pFunction now1 now2 s
               = (d, fst (cyclic_waitingTime interval d s0),
                  snd (vos_threadDelay (fst (cyclic_waitingTime interval d s0))
                         (snd (cyclic_waitingTime interval d s0))))"
    by (simp add: vos_cyclicThread_cycle_def prior after sub s0_def split: prod.splits)
  with assms(3) have el: "elapsed = d"
    and wt: "waitingTime = fst (cyclic_waitingTime interval d s0)"
    and st: "s' = snd (vos_threadDelay waitingTime (snd (cyclic_waitingTime interval d s0)))"
    by auto
  have p1: "Some elapsed
           = fst (vos_subTime (fst (vos_getTime (Some uninit) now2 s))
                    (fst (vos_getTime (Some uninit) now1 s)) s)"
    by (simp add: el prior after sub)
  have p3: "waitingTime = 0
            \<and> s' = snd (vos_threadDelay 0
                      (vos_printLog VOS_LOG_ERROR
                         ''cyclic thread with interval %d usec exceeded time out by running %d sec''
                         s0))"
    if "4293 <s tv_sec elapsed"
  proof -
    from that have "\<not> tv_sec d \<le>s 4293"
      by (simp add: el word_sle_eq word_sless_alt)
    then show ?thesis
      by (simp add: wt st cyclic_waitingTime_def MAXSEC_FOR_USECPRESENTATION_def)
  qed
  have p2: "uint (tv_sec elapsed * 1000 * 1000 + tv_usec elapsed)
              = sint (tv_sec elapsed) * 1000000 + sint (tv_usec elapsed)
            \<and> (sint (tv_sec elapsed) * 1000000 + sint (tv_usec elapsed) \<le> uint interval \<longrightarrow>
                  uint waitingTime
                    = uint interval - (sint (tv_sec elapsed) * 1000000 + sint (tv_usec elapsed))
                  \<and> s' = snd (vos_threadDelay waitingTime s0))
            \<and> (uint interval < sint (tv_sec elapsed) * 1000000 + sint (tv_usec elapsed) \<longrightarrow>
                  waitingTime = 0
                  \<and> s' = snd (vos_threadDelay 0
                            (vos_printLog VOS_LOG_ERROR
                               ''cyclic thread with interval %d usec was running  %d usec'' s0)))"
    if r: "0 \<le>s tv_sec elapsed" "tv_sec elapsed \<le>s 4293"
  proof -
    let ?e = "tv_sec d * 1000 * 1000 + tv_usec d"
    from vd have "0 \<le>s tv_usec d" "tv_usec d <s 1000000"
      by (simp_all add: valid_usec_def)
    with r have ex: "uint ?e = sint (tv_sec d) * 1000000 + sint (tv_usec d)"
      by (intro exec_lossless) (simp_all add: el)
    have le: "tv_sec d \<le>s MAXSEC_FOR_USECPRESENTATION"
      using r by (simp add: el MAXSEC_FOR_USECPRESENTATION_def)
    have a: "uint waitingTime = uint interval - uint ?e \<and> s' = snd (vos_threadDelay waitingTime s0)"
      if "uint ?e \<le> uint interval"
    proof -
      from that have "\<not> interval < ?e" "?e \<le> interval"
        by (simp_all add: word_less_def word_le_def)
      then show ?thesis
        using le by (simp add: wt st cyclic_waitingTime_def Let_def uint_minus_simple_alt)
    qed
    have b: "waitingTime = 0
             \<and> s' = snd (vos_threadDelay 0
                       (vos_printLog VOS_LOG_ERROR
                          ''cyclic thread with interval %d usec was running  %d usec'' s0))"
      if "uint interval < uint ?e"
    proof -
      from that have "interval < ?e"
        by (simp add: word_less_def)
      then show ?thesis
        using le by (simp add: wt st cyclic_waitingTime_def Let_def)
    qed
    from a b ex show ?thesis
      by (simp add: el)
  qed
  from p1 p2 p3 show ?thesis
    by (simp add: Let_def s0_def)
qed


text \<open>
  The theorem at the scenario of the specification: an interval of 10000 us and a function
  that the clock measures at 3000 us gives a wait of 7000 us and logs nothing; measured at
  15000 us it gives a wait of 0, logs the overrun, and \<^verbatim>\<open>vos_threadDelay\<close> then warns that
  it cannot sleep for less than a millisecond.
\<close>

theorem cyclic_waitingTime_correct_witness:
  "clock_ok (Some \<lparr>time = 100, millitm = 0\<rparr>)
   \<and> clock_ok (Some \<lparr>time = 100, millitm = 3\<rparr>)
   \<and> clock_ok (Some \<lparr>time = 100, millitm = 15\<rparr>)
   \<and> fst (vos_cyclicThread_cycle 10000 (\<lambda>s. s) (Some \<lparr>time = 100, millitm = 0\<rparr>)
            (Some \<lparr>time = 100, millitm = 3\<rparr>) initial_state)
       = \<lparr>tv_sec = 0, tv_usec = 3000\<rparr>
   \<and> fst (snd (vos_cyclicThread_cycle 10000 (\<lambda>s. s) (Some \<lparr>time = 100, millitm = 0\<rparr>)
            (Some \<lparr>time = 100, millitm = 3\<rparr>) initial_state))
       = 7000
   \<and> logged (snd (snd (vos_cyclicThread_cycle 10000 (\<lambda>s. s) (Some \<lparr>time = 100, millitm = 0\<rparr>)
            (Some \<lparr>time = 100, millitm = 3\<rparr>) initial_state)))
       = []
   \<and> fst (vos_cyclicThread_cycle 10000 (\<lambda>s. s) (Some \<lparr>time = 100, millitm = 0\<rparr>)
            (Some \<lparr>time = 100, millitm = 15\<rparr>) initial_state)
       = \<lparr>tv_sec = 0, tv_usec = 15000\<rparr>
   \<and> fst (snd (vos_cyclicThread_cycle 10000 (\<lambda>s. s) (Some \<lparr>time = 100, millitm = 0\<rparr>)
            (Some \<lparr>time = 100, millitm = 15\<rparr>) initial_state))
       = 0
   \<and> logged (snd (snd (vos_cyclicThread_cycle 10000 (\<lambda>s. s) (Some \<lparr>time = 100, millitm = 0\<rparr>)
            (Some \<lparr>time = 100, millitm = 15\<rparr>) initial_state)))
       = [(VOS_LOG_ERROR, ''cyclic thread with interval %d usec was running  %d usec''),
          (VOS_LOG_WARNING, ''Win: thread delays < 1ms are not supported!'')]"
proof -
  let ?c0 = "Some \<lparr>time = 100, millitm = 0\<rparr>"
  let ?c3 = "Some \<lparr>time = 100, millitm = 3\<rparr>"
  let ?c15 = "Some \<lparr>time = 100, millitm = 15\<rparr>"
  let ?r = "vos_cyclicThread_cycle 10000 (\<lambda>s. s) ?c0 ?c3 initial_state"
  let ?q = "vos_cyclicThread_cycle 10000 (\<lambda>s. s) ?c0 ?c15 initial_state"
  have ok: "clock_ok ?c0" "clock_ok ?c3" "clock_ok ?c15"
    by (simp_all add: clock_ok_def)
  have r: "?r = (fst ?r, fst (snd ?r), snd (snd ?r))" and q: "?q = (fst ?q, fst (snd ?q), snd (snd ?q))"
    by simp_all
  note R = cyclic_waitingTime_correct [OF ok(1) ok(2) r]
  note Q = cyclic_waitingTime_correct [OF ok(1) ok(3) q]
  have er: "fst ?r = \<lparr>tv_sec = 0, tv_usec = 3000\<rparr>"
    using R by (simp add: vos_getTime_def vos_subTime_def word_sless_alt)
  have eq: "fst ?q = \<lparr>tv_sec = 0, tv_usec = 15000\<rparr>"
    using Q by (simp add: vos_getTime_def vos_subTime_def word_sless_alt)
  have wr: "uint (fst (snd ?r)) = 7000"
    and sr: "snd (snd ?r) = snd (vos_threadDelay (fst (snd ?r)) (call Ftime32 (call Ftime32 initial_state)))"
    using R unfolding er by (simp_all add: Let_def word_sle_eq)
  from wr have wr': "fst (snd ?r) = 7000"
    by (simp add: word_uint_eq_iff)
  have wq: "fst (snd ?q) = 0"
    and sq: "snd (snd ?q) = snd (vos_threadDelay 0
               (vos_printLog VOS_LOG_ERROR ''cyclic thread with interval %d usec was running  %d usec''
                  (call Ftime32 (call Ftime32 initial_state))))"
    using Q unfolding eq by (simp_all add: Let_def word_sle_eq)
  have lr: "logged (snd (snd ?r)) = []"
    unfolding sr wr' by (simp add: vos_threadDelay_def call_def initial_state_def)
  have lq: "logged (snd (snd ?q))
       = [(VOS_LOG_ERROR, ''cyclic thread with interval %d usec was running  %d usec''),
          (VOS_LOG_WARNING, ''Win: thread delays < 1ms are not supported!'')]"
    unfolding sq by (simp add: vos_threadDelay_def vos_printLog_def call_def initial_state_def)
  from ok er wr' lr eq wq lq show ?thesis
    by simp
qed

subsection \<open>The priority of a new thread\<close>

text \<open>
  Claim C1 says that for each of the priorities 1, 36, 72, 108, 144, 180, 216 and 255 the
  index \<^verbatim>\<open>priority / 36 - 1\<close> is a valid index into the table of seven levels. The code
  at priority 1, in an initialised module, with both pointers set, interval 0 and a thread
  that \<^verbatim>\<open>CreateThread\<close> did create: the index is \<open>-1\<close> and \<^verbatim>\<open>prioMap[-1]\<close> is read, outside
  the array, although the comment above the table says it maps 1...255 to
  \<^verbatim>\<open>THREAD_PRIORITY_IDLE\<close>...\<^verbatim>\<open>THREAD_PRIORITY_TIME_CRITICAL\<close>. The other seven
  priorities select the seven levels in the order of the table.
\<close>

theorem vos_threadCreate_priority_1_out_of_bounds:
  "prioIndex 1 = - 1
   \<and> length prioMap = 7
   \<and> array_read prioMap (prioIndex 1) = Inl (IndexOutOfBounds (- 1))
   \<and> vos_threadCreate (Some h0) (Some name) VOS_THREAD_POLICY_OTHER 1 0 stackSize pFunction
         pArguments (Suc h) (s\<lparr>vosThreadInitialised := True\<rparr>)
       = Inl (IndexOutOfBounds (- 1),
              call (CreateThread (if stackSize = 0 then cDefaultStackSize else unat stackSize)
                      pFunction pArguments) (s\<lparr>vosThreadInitialised := True\<rparr>))
   \<and> map prioIndex [36, 72, 108, 144, 180, 216, 255] = [0, 1, 2, 3, 4, 5, 6]
   \<and> map (array_read prioMap \<circ> prioIndex) [36, 72, 108, 144, 180, 216, 255] = map Inr prioMap"
  by (simp add: prioIndex_def prioMap_def array_read_def vos_threadCreate_def Let_def)

text \<open>The index is outside the table for every priority below 36 and inside it from 36 on.\<close>

lemma prioIndex_valid:
  "36 \<le> priority \<Longrightarrow> 0 \<le> prioIndex priority \<and> prioIndex priority < int (length prioMap)"
proof -
  assume "36 \<le> priority"
  then have "36 \<le> uint priority"
    by (simp add: word_le_def)
  moreover have "uint priority < 256"
    using uint_lt2p [of priority] by simp
  ultimately have "1 \<le> uint priority div 36" "uint priority div 36 \<le> 7"
    by presburger+
  then show ?thesis
    by (simp add: prioIndex_def prioMap_def)
qed

lemma prioIndex_low: "priority < 36 \<Longrightarrow> prioIndex priority = - 1"
  by (simp add: prioIndex_def word_less_def)


lemma prioIndex_mono: "p \<le> q \<Longrightarrow> prioIndex p \<le> prioIndex q"
  by (simp add: prioIndex_def word_le_def zdiv_mono1)

subsection \<open>Taking and giving a semaphore\<close>

text \<open>
  Claim C2 says that \<^verbatim>\<open>vos_semaTake\<close> with a null handle returns the not-initialised
  outcome and checks for \<^verbatim>\<open>NULL\<close> before any dereference. The code with a null handle, for
  every time-out: it logs the error, sets \<^verbatim>\<open>retVal = VOS_NOINIT_ERR\<close>, does not return, and
  evaluates \<^verbatim>\<open>sema->semaphore\<close> for the call of \<^verbatim>\<open>WaitForSingleObject\<close>: a null dereference.
\<close>

theorem vos_semaTake_null_dereference:
  "vos_semaTake None timeout dwWaitResult s
     = Inl (NullDereference,
            s\<lparr>logged := logged s
                 @ [(VOS_LOG_ERROR, ''vos_semaTake() ERROR invalid parameter 'sema' == NULL'')]\<rparr>)"
  by (simp add: vos_semaTake_def vos_printLog_def)

text \<open>
  Claim C6 says that \<^verbatim>\<open>vos_semaGive\<close> with a handle logs an error exactly when the native
  release fails. \<^verbatim>\<open>ReleaseSemaphore\<close> answers zero when it fails, as \<^verbatim>\<open>ReleaseMutex\<close> does,
  whose zero \<^verbatim>\<open>vos_mutexUnlock\<close> treats as the failure. The code of \<^verbatim>\<open>vos_semaGive\<close> has
  the test the other way round: on the answer zero it logs nothing, on an answer that is
  not zero it logs that it could not release the semaphore. It returns in both cases.
\<close>

theorem vos_semaGive_logs_on_success:
  "logged (vos_semaGive (Some sm) 0 s) = logged s
   \<and> logged (vos_semaGive (Some sm) 1 s)
       = logged s @ [(VOS_LOG_ERROR, ''vos_semaGive() ERROR could not release semaphore'')]
   \<and> (logged (vos_semaGive (Some sm) released s) \<noteq> logged s \<longleftrightarrow> released \<noteq> 0)"
  by (simp add: vos_semaGive_def vos_printLog_def call_def Let_def)

subsection \<open>Thread operations on a module that is not initialised\<close>

text \<open>
  Claim C5, as the code has it. While the module is not initialised, \<^verbatim>\<open>vos_threadCreate\<close>,
  \<^verbatim>\<open>vos_threadTerminate\<close> and \<^verbatim>\<open>vos_threadIsActive\<close> return \<^verbatim>\<open>VOS_INIT_ERR\<close> and have no
  other effect: the state, with its log and its trace of native calls, and the variable
  behind \<open>pThread\<close> are as before. \<^verbatim>\<open>vos_threadSelf\<close> and \<^verbatim>\<open>vos_threadDelay\<close> do not look at
  the flag and never return \<^verbatim>\<open>VOS_INIT_ERR\<close>: self rejects a null pointer as a parameter
  error and otherwise stores the current thread and succeeds; delay rejects a delay below
  1000 us as a parameter error, with a warning, and otherwise sleeps.
\<close>

theorem thread_ops_uninitialised:
  assumes "\<not> vosThreadInitialised s"
  shows "vos_threadCreate pThread pName policy priority interval stackSize pFunction pArguments
           hThread s = Inr (VOS_INIT_ERR, pThread, s)
       \<and> vos_threadTerminate thread ret s = (VOS_INIT_ERR, s)
       \<and> vos_threadIsActive thread ret s = (VOS_INIT_ERR, s)
       \<and> fst (vos_threadSelf pThread cur s) \<noteq> VOS_INIT_ERR
       \<and> fst (vos_threadDelay delay s) \<noteq> VOS_INIT_ERR
       \<and> vos_threadSelf None cur s = (VOS_PARAM_ERR, None, s)
       \<and> vos_threadSelf (Some h) cur s
           = (VOS_NO_ERR, Some cur, s\<lparr>native := native s @ [GetCurrentThread]\<rparr>)
       \<and> vos_threadDelay delay s
           = (if delay < 1000
              then (VOS_PARAM_ERR,
                    s\<lparr>logged := logged s
                         @ [(VOS_LOG_WARNING, ''Win: thread delays < 1ms are not supported!'')]\<rparr>)
              else (VOS_NO_ERR, s\<lparr>native := native s @ [Sleep (delay div 1000)]\<rparr>))"
  using assms
  by (simp add: vos_threadCreate_def vos_threadTerminate_def vos_threadIsActive_def
      vos_threadSelf_def vos_threadDelay_def vos_printLog_def call_def split: option.splits)

text \<open>The theorem before \<^verbatim>\<open>vos_threadInit\<close>, and after \<^verbatim>\<open>vos_threadTerm\<close>.\<close>

theorem thread_ops_uninitialised_witness:
  "\<not> vosThreadInitialised initial_state
   \<and> \<not> vosThreadInitialised (vos_threadTerm (snd (vos_threadInit initial_state)))
   \<and> vos_threadCreate (Some 0) (Some ''worker'') VOS_THREAD_POLICY_OTHER 72 0 0 1 2 5 initial_state
       = Inr (VOS_INIT_ERR, Some 0, initial_state)
   \<and> vos_threadTerminate 5 1 (vos_threadTerm (snd (vos_threadInit initial_state)))
       = (VOS_INIT_ERR, vos_threadTerm (snd (vos_threadInit initial_state)))
   \<and> vos_threadIsActive 5 1 (vos_threadTerm (snd (vos_threadInit initial_state)))
       = (VOS_INIT_ERR, vos_threadTerm (snd (vos_threadInit initial_state)))"
proof -
  have a: "\<not> vosThreadInitialised initial_state"
    by (simp add: initial_state_def)
  have b: "\<not> vosThreadInitialised (vos_threadTerm (snd (vos_threadInit initial_state)))"
    by (simp add: vos_threadTerm_def)
  from a b
    thread_ops_uninitialised [OF a, of "Some 0" "Some ''worker''" VOS_THREAD_POLICY_OTHER 72 0 0 1 2 5]
    thread_ops_uninitialised [OF b, of _ _ _ _ _ _ _ _ _ 5 1]
  show ?thesis
    by simp
qed

text \<open>
  Claim C5 as the specification words it also covers self and delay. Before
  \<^verbatim>\<open>vos_threadInit\<close>, \<^verbatim>\<open>vos_threadSelf\<close> asks for the current thread, stores it and returns
  \<^verbatim>\<open>VOS_NO_ERR\<close>, and \<^verbatim>\<open>vos_threadDelay\<close> of 2000 us sleeps for 2 ms and returns \<^verbatim>\<open>VOS_NO_ERR\<close>.
\<close>

theorem thread_self_delay_uninitialised_counterexample:
  "\<not> vosThreadInitialised initial_state
   \<and> vos_threadSelf (Some 0) 5 initial_state
       = (VOS_NO_ERR, Some 5, initial_state\<lparr>native := [GetCurrentThread]\<rparr>)
   \<and> vos_threadDelay 2000 initial_state = (VOS_NO_ERR, initial_state\<lparr>native := [Sleep 2]\<rparr>)"
  by (simp add: vos_threadSelf_def vos_threadDelay_def call_def initial_state_def)

subsection \<open>The integrity tag of a mutex\<close>

lemma mutex_call_invalid:
  "mutex_invalid pMutex s \<Longrightarrow> mutex_call pMutex x s = invalid_parameter x s"
  by (cases x)
    (simp_all add: vos_mutexLock_def vos_mutexTryLock_def vos_mutexUnlock_def vos_mutexDelete_def
      vos_printLog_def)

lemma invalid_parameter_frame:
  "native (snd (invalid_parameter x s)) = native s
   \<and> mutexMem (snd (invalid_parameter x s)) = mutexMem s"
  by (cases x) simp_all

lemma mutex_invalid_cong:
  "mutexMem s' = mutexMem s \<Longrightarrow> mutex_invalid pMutex s' = mutex_invalid pMutex s"
  by (simp add: mutex_invalid_def split: option.splits)

lemma all_invalid_parameter_frame:
  "native (snd (all_invalid_parameter xs s)) = native s
   \<and> mutexMem (snd (all_invalid_parameter xs s)) = mutexMem s"
proof (induction xs arbitrary: s)
  case Nil
  show ?case by simp
next
  case (Cons x xs)
  obtain r s1 where x: "invalid_parameter x s = (r, s1)"
    by (cases "invalid_parameter x s")
  obtain rs s2 where xs: "all_invalid_parameter xs s1 = (rs, s2)"
    by (cases "all_invalid_parameter xs s1")
  from invalid_parameter_frame [of x s] x have "native s1 = native s" "mutexMem s1 = mutexMem s"
    by simp_all
  moreover from Cons.IH [of s1] xs have "native s2 = native s1" "mutexMem s2 = mutexMem s1"
    by simp_all
  ultimately show ?case
    by (simp add: x xs)
qed

lemma mutex_calls_invalid:
  "mutex_invalid pMutex s \<Longrightarrow> mutex_calls pMutex xs s = all_invalid_parameter xs s"
proof (induction xs arbitrary: s)
  case Nil
  show ?case by simp
next
  case (Cons x xs)
  have c: "mutex_call pMutex x s = invalid_parameter x s"
    using Cons.prems by (rule mutex_call_invalid)
  have "mutexMem (snd (invalid_parameter x s)) = mutexMem s"
    by (simp add: invalid_parameter_frame)
  then have "mutex_invalid pMutex (snd (invalid_parameter x s)) = mutex_invalid pMutex s"
    by (rule mutex_invalid_cong)
  with Cons.prems have "mutex_invalid pMutex (snd (invalid_parameter x s))"
    by simp
  then have "mutex_calls pMutex xs (snd (invalid_parameter x s))
               = all_invalid_parameter xs (snd (invalid_parameter x s))"
    by (rule Cons.IH)
  then show ?case
    by (simp add: c case_prod_beta)
qed

lemma delete_closed:
  assumes "\<not> mutex_invalid (Some a) s" and "closed \<noteq> 0"
  shows "mutexMem (vos_mutexDelete (Some a) closed s) a = (mutexMem s a)\<lparr>magicNo := 0\<rparr>"
  using assms by (simp add: vos_mutexDelete_def call_def Let_def)

lemma delete_not_closed:
  assumes "\<not> mutex_invalid (Some a) s"
  shows "mutexMem (vos_mutexDelete (Some a) 0 s) = mutexMem s"
  using assms by (simp add: vos_mutexDelete_def call_def vos_printLog_def Let_def)

text \<open>
  Claim C7. A handle is invalid when it is \<^verbatim>\<open>NULL\<close> or the tag of the mutex it points at is
  not the sentinel \<^verbatim>\<open>cMutextMagic\<close>. On an invalid handle each of lock, tryLock, unlock and
  delete yields its invalid-parameter outcome (\<^verbatim>\<open>VOS_PARAM_ERR\<close> returned, or the error
  reported to the log by the two that log), makes no native call and leaves every mutex
  as it was. A delete of a valid handle whose \<^verbatim>\<open>CloseHandle\<close> succeeds (answer not zero)
  sets the tag to 0, so the handle is invalid from then on: every run of lock, tryLock,
  unlock and delete on it that follows yields invalid-parameter outcomes only and makes no native call.
  A delete whose \<^verbatim>\<open>CloseHandle\<close> fails (answer zero) leaves the tag at the sentinel and the
  handle valid.
\<close>

theorem mutex_tag_validation:
  "(mutex_invalid pMutex s \<longrightarrow>
      mutex_call pMutex x s = invalid_parameter x s
      \<and> native (snd (mutex_call pMutex x s)) = native s
      \<and> mutexMem (snd (mutex_call pMutex x s)) = mutexMem s)
   \<and> (\<not> mutex_invalid (Some a) s \<and> closed \<noteq> 0 \<longrightarrow>
        magicNo (mutexMem (vos_mutexDelete (Some a) closed s) a) = 0
        \<and> mutex_invalid (Some a) (vos_mutexDelete (Some a) closed s)
        \<and> mutex_calls (Some a) xs (vos_mutexDelete (Some a) closed s)
            = all_invalid_parameter xs (vos_mutexDelete (Some a) closed s)
        \<and> native (snd (mutex_calls (Some a) xs (vos_mutexDelete (Some a) closed s)))
            = native (vos_mutexDelete (Some a) closed s))
   \<and> (\<not> mutex_invalid (Some a) s \<longrightarrow>
        magicNo (mutexMem (vos_mutexDelete (Some a) 0 s) a) = cMutextMagic
        \<and> \<not> mutex_invalid (Some a) (vos_mutexDelete (Some a) 0 s))"
proof (intro conjI impI)
  assume inv: "mutex_invalid pMutex s"
  then show "mutex_call pMutex x s = invalid_parameter x s"
    by (rule mutex_call_invalid)
  then show "native (snd (mutex_call pMutex x s)) = native s"
    and "mutexMem (snd (mutex_call pMutex x s)) = mutexMem s"
    by (simp_all add: invalid_parameter_frame)
next
  assume v: "\<not> mutex_invalid (Some a) s \<and> closed \<noteq> 0"
  then have mem: "mutexMem (vos_mutexDelete (Some a) closed s) a = (mutexMem s a)\<lparr>magicNo := 0\<rparr>"
    by (simp add: delete_closed)
  then show zero: "magicNo (mutexMem (vos_mutexDelete (Some a) closed s) a) = 0"
    by simp
  then show inv: "mutex_invalid (Some a) (vos_mutexDelete (Some a) closed s)"
    by (simp add: mutex_invalid_def cMutextMagic_def)
  then show run: "mutex_calls (Some a) xs (vos_mutexDelete (Some a) closed s)
            = all_invalid_parameter xs (vos_mutexDelete (Some a) closed s)"
    by (rule mutex_calls_invalid)
  show "native (snd (mutex_calls (Some a) xs (vos_mutexDelete (Some a) closed s)))
            = native (vos_mutexDelete (Some a) closed s)"
    by (simp add: run all_invalid_parameter_frame)
next
  assume v: "\<not> mutex_invalid (Some a) s"
  then have mem: "mutexMem (vos_mutexDelete (Some a) 0 s) = mutexMem s"
    by (rule delete_not_closed)
  with v show "magicNo (mutexMem (vos_mutexDelete (Some a) 0 s) a) = cMutextMagic"
    by (simp add: mutex_invalid_def)
  from v mem show "\<not> mutex_invalid (Some a) (vos_mutexDelete (Some a) 0 s)"
    by (simp add: mutex_invalid_def)
qed

text \<open>
  The theorem at the null handle, at an address where no mutex was ever created, and at a
  mutex created at address 16 with native handle 77 and then deleted, once with
  \<^verbatim>\<open>CloseHandle\<close> succeeding and once with it failing.
\<close>

theorem mutex_tag_validation_witness:
  "mutex_invalid None initial_state
   \<and> mutex_call None (Lock 0) initial_state = (Some VOS_PARAM_ERR, initial_state)
   \<and> mutex_invalid (Some 16) initial_state
   \<and> fst (mutex_call (Some 16) (TryLock 0) initial_state) = Some VOS_PARAM_ERR
   \<and> \<not> mutex_invalid (Some 16) (snd (vos_mutexLocalCreate (Some 16) 77 initial_state))
   \<and> magicNo (mutexMem (vos_mutexDelete (Some 16) 1
                 (snd (vos_mutexLocalCreate (Some 16) 77 initial_state))) 16) = 0
   \<and> fst (mutex_calls (Some 16) [Lock 0, TryLock 0, Unlock 1, Delete 1]
            (vos_mutexDelete (Some 16) 1 (snd (vos_mutexLocalCreate (Some 16) 77 initial_state))))
       = [Some VOS_PARAM_ERR, Some VOS_PARAM_ERR, Some VOS_PARAM_ERR, None]
   \<and> native (snd (mutex_calls (Some 16) [Lock 0, TryLock 0, Unlock 1, Delete 1]
            (vos_mutexDelete (Some 16) 1 (snd (vos_mutexLocalCreate (Some 16) 77 initial_state)))))
       = [CreateMutexCall, CloseHandle 77]
   \<and> magicNo (mutexMem (vos_mutexDelete (Some 16) 0
                 (snd (vos_mutexLocalCreate (Some 16) 77 initial_state))) 16) = cMutextMagic"
proof -
  let ?s1 = "snd (vos_mutexLocalCreate (Some 16) 77 initial_state)"
  let ?xs = "[Lock 0, TryLock 0, Unlock 1, Delete 1]"
  have n: "mutex_invalid None initial_state"
    by (simp add: mutex_invalid_def)
  have i: "mutex_invalid (Some 16) initial_state"
    by (simp add: mutex_invalid_def initial_state_def cMutextMagic_def)
  have v: "\<not> mutex_invalid (Some 16) ?s1"
    by (simp add: mutex_invalid_def vos_mutexLocalCreate_def Let_def)
  have nat1: "native ?s1 = [CreateMutexCall]" and id1: "mutexId (mutexMem ?s1 16) = 77"
    by (simp_all add: vos_mutexLocalCreate_def Let_def call_def initial_state_def)
  have nd: "native (vos_mutexDelete (Some 16) 1 ?s1) = [CreateMutexCall, CloseHandle 77]"
    using v by (simp add: vos_mutexDelete_def Let_def call_def nat1 id1)
  note A = mutex_tag_validation [of None initial_state "Lock 0"]
  note B = mutex_tag_validation [of "Some 16" initial_state "TryLock 0"]
  note C = mutex_tag_validation [of _ ?s1 _ 16 1 ?xs]
  from A n have a: "mutex_call None (Lock 0) initial_state = (Some VOS_PARAM_ERR, initial_state)"
    by simp
  from B i have b: "fst (mutex_call (Some 16) (TryLock 0) initial_state) = Some VOS_PARAM_ERR"
    by simp
  from C v have c: "magicNo (mutexMem (vos_mutexDelete (Some 16) 1 ?s1) 16) = 0"
    and d: "mutex_calls (Some 16) ?xs (vos_mutexDelete (Some 16) 1 ?s1)
              = all_invalid_parameter ?xs (vos_mutexDelete (Some 16) 1 ?s1)"
    and e: "native (snd (mutex_calls (Some 16) ?xs (vos_mutexDelete (Some 16) 1 ?s1)))
              = native (vos_mutexDelete (Some 16) 1 ?s1)"
    and f: "magicNo (mutexMem (vos_mutexDelete (Some 16) 0 ?s1) 16) = cMutextMagic"
    by simp_all
  have d': "fst (mutex_calls (Some 16) ?xs (vos_mutexDelete (Some 16) 1 ?s1))
              = [Some VOS_PARAM_ERR, Some VOS_PARAM_ERR, Some VOS_PARAM_ERR, None]"
    unfolding d by simp
  from e nd have e': "native (snd (mutex_calls (Some 16) ?xs (vos_mutexDelete (Some 16) 1 ?s1)))
              = [CreateMutexCall, CloseHandle 77]"
    by (simp only:)
  from n i v a b c d' e' f show ?thesis
    by blast
qed


subsection \<open>Identifiers of one process are distinct\<close>

lemma low_byte_mask:
  fixes c :: "16 word"
  shows "c AND 0xFF = take_bit 8 c"
  by (simp add: take_bit_eq_mask mask_eq_exp_minus_1)

lemma count_bytes:
  fixes c :: "16 word"
  shows "ucast (ucast (c AND 0xFF) :: 8 word) OR push_bit 8 (ucast (ucast (drop_bit 8 c) :: 8 word)) = c"
  unfolding low_byte_mask
  apply (rule bit_word_eqI)
  apply (auto simp: bit_simps)
  done

lemma getUuid_counter:
  "counter_of (fst (vos_getUuid now mac s)) = count s
   \<and> count (snd (vos_getUuid now mac s)) = count s + 1"
  by (simp add: vos_getUuid_def vos_getTime_def counter_of_def count_bytes call_def vos_printLog_def
      Let_def split: option.splits)


lemma uuid_calls_length: "length (uuid_calls env s) = length env"
  by (induction env arbitrary: s) auto

lemma getUuid_bytes:
  "fst (vos_getUuid now mac s) ! 8 = ucast (count s AND 0xFF)
   \<and> fst (vos_getUuid now mac s) ! 9 = ucast (drop_bit 8 (count s))"
  by (simp add: vos_getUuid_def vos_getTime_def call_def Let_def split: option.splits)

lemma uuid_calls_nth:
  "k < length env \<Longrightarrow>
   \<exists>now mac s'. uuid_calls env s ! k = fst (vos_getUuid now mac s') \<and> count s' = count s + of_nat k"
proof (induction env arbitrary: s k)
  case Nil
  then show ?case by simp
next
  case (Cons e env)
  obtain now mac where e: "e = (now, mac)"
    by (cases e)
  show ?case
  proof (cases k)
    case 0
    have "uuid_calls (e # env) s ! 0 = fst (vos_getUuid now mac s) \<and> count s = count s + of_nat 0"
      by (simp add: e)
    with 0 show ?thesis
      by blast
  next
    case (Suc j)
    with Cons.prems have "j < length env"
      by simp
    from Cons.IH [OF this, of "snd (vos_getUuid now mac s)"]
    obtain now' mac' s' where
      "uuid_calls env (snd (vos_getUuid now mac s)) ! j = fst (vos_getUuid now' mac' s')"
      and "count s' = count (snd (vos_getUuid now mac s)) + of_nat j"
      by blast
    then have "uuid_calls (e # env) s ! k = fst (vos_getUuid now' mac' s')
               \<and> count s' = count s + of_nat k"
      by (simp add: e Suc getUuid_counter)
    then show ?thesis
      by blast
  qed
qed

lemma uuid_calls_counter:
  assumes "k < length env"
  shows "counter_of (uuid_calls env s ! k) = count s + of_nat k"
proof -
  from uuid_calls_nth [OF assms, of s] obtain now mac s' where
    "uuid_calls env s ! k = fst (vos_getUuid now mac s')" and "count s' = count s + of_nat k"
    by blast
  then show ?thesis
    by (simp add: getUuid_counter)
qed

lemma uuid_calls_bytes:
  assumes "k < length env"
  shows "uuid_calls env s ! k ! 8 = ucast ((count s + of_nat k) AND 0xFF)
       \<and> uuid_calls env s ! k ! 9 = ucast (drop_bit 8 (count s + of_nat k))"
proof -
  from uuid_calls_nth [OF assms, of s] obtain now mac s' where
    "uuid_calls env s ! k = fst (vos_getUuid now mac s')" and "count s' = count s + of_nat k"
    by blast
  with getUuid_bytes [of now mac s'] show ?thesis
    by simp
qed

lemma word16_of_nat_inj:
  assumes "i < 65536" "j < 65536" "(of_nat i :: 16 word) = of_nat j"
  shows "i = j"
proof -
  from assms(3) have "take_bit 16 i = take_bit 16 j"
    by (simp add: word_of_nat_eq_iff)
  moreover have "take_bit 16 i = i" "take_bit 16 j = j"
    using assms(1,2) by (simp_all add: take_bit_nat_eq_self)
  ultimately show ?thesis
    by simp
qed

lemma uuid_calls_distinct:
  assumes "length env \<le> 65536"
  shows "distinct (uuid_calls env s)"
proof (unfold distinct_conv_nth, intro allI impI)
  fix i j
  assume i: "i < length (uuid_calls env s)" and j: "j < length (uuid_calls env s)" and ne: "i \<noteq> j"
  from i j have i': "i < length env" and j': "j < length env"
    by (simp_all add: uuid_calls_length)
  show "uuid_calls env s ! i \<noteq> uuid_calls env s ! j"
  proof
    assume "uuid_calls env s ! i = uuid_calls env s ! j"
    then have "counter_of (uuid_calls env s ! i) = counter_of (uuid_calls env s ! j)"
      by simp
    then have "count s + of_nat i = count s + of_nat j"
      by (simp add: uuid_calls_counter i' j')
    then have "(of_nat i :: 16 word) = of_nat j"
      by simp
    moreover from i' j' assms have "i < 65536" "j < 65536"
      by simp_all
    ultimately have "i = j"
      by (intro word16_of_nat_inj)
    with ne show False
      by simp
  qed
qed

text \<open>
  Claim C9. 10000 successive calls of \<^verbatim>\<open>vos_getUuid\<close> in one process, from any state of
  the counter, whatever the clock answers and whatever \<^verbatim>\<open>vos_sockGetMAC\<close> answers or
  leaves in the last six bytes, return 10000 identifiers that are pairwise distinct; and
  bytes 8 and 9 of the \<open>k\<close>-th of them are the low and the high byte of the 16-bit counter
  \<open>count + k\<close>, which goes up by one with each call and wraps modulo \<open>2 ^ 16\<close>.
\<close>

theorem uuid_10000_distinct:
  assumes "length env = 10000"
  shows "distinct (uuid_calls env s)
       \<and> (\<forall>k < 10000.
            uuid_calls env s ! k ! 8 = ucast ((count s + of_nat k) AND 0xFF)
            \<and> uuid_calls env s ! k ! 9 = ucast (drop_bit 8 (count s + of_nat k)))"
proof (intro conjI allI impI)
  show "distinct (uuid_calls env s)"
    using assms by (intro uuid_calls_distinct) simp
next
  fix k :: nat
  assume "k < 10000"
  with assms have "k < length env"
    by simp
  then show "uuid_calls env s ! k ! 8 = ucast ((count s + of_nat k) AND 0xFF)"
    and "uuid_calls env s ! k ! 9 = ucast (drop_bit 8 (count s + of_nat k))"
    by (simp_all add: uuid_calls_bytes)
qed

text \<open>
  The theorem for a process whose clock fails at every call, so that all time stamps are
  equal, and whose \<^verbatim>\<open>vos_sockGetMAC\<close> fails and leaves nothing: the first identifier
  carries the counter 1, the last one the counter 10000 = 0x2710.
\<close>

theorem uuid_10000_distinct_witness:
  "length (replicate 10000 (None :: timeb32 option, VOS_SEMA_ERR, [] :: UINT8 list)) = 10000
   \<and> distinct (uuid_calls (replicate 10000 (None, VOS_SEMA_ERR, [])) initial_state)
   \<and> uuid_calls (replicate 10000 (None, VOS_SEMA_ERR, [])) initial_state ! 0
       = [0, 0, 0, 0, 0, 0, 0, 4, 1, 0]
   \<and> uuid_calls (replicate 10000 (None, VOS_SEMA_ERR, [])) initial_state ! 9999 ! 8 = 0x10
   \<and> uuid_calls (replicate 10000 (None, VOS_SEMA_ERR, [])) initial_state ! 9999 ! 9 = 0x27"
proof -
  let ?env = "replicate 10000 (None :: timeb32 option, VOS_SEMA_ERR, [] :: UINT8 list)"
  have len: "length ?env = 10000"
    by simp
  note T = uuid_10000_distinct [OF len, of initial_state]
  have c: "count initial_state = 1"
    by (simp add: initial_state_def)
  from T have d: "distinct (uuid_calls ?env initial_state)"
    by blast
  from T have "uuid_calls ?env initial_state ! 9999 ! 8 = ucast ((count initial_state + of_nat 9999) AND 0xFF)"
    and "uuid_calls ?env initial_state ! 9999 ! 9 = ucast (drop_bit 8 (count initial_state + of_nat 9999))"
    by simp_all
  then have b: "uuid_calls ?env initial_state ! 9999 ! 8 = 0x10"
    "uuid_calls ?env initial_state ! 9999 ! 9 = 0x27"
    by (simp_all add: c)
  have "?env = (None, VOS_SEMA_ERR, []) # replicate 9999 (None, VOS_SEMA_ERR, [])"
    by (simp add: replicate_Suc [symmetric] del: replicate_Suc)
  then have f: "uuid_calls ?env initial_state ! 0 = [0, 0, 0, 0, 0, 0, 0, 4, 1, 0]"
    by (simp add: vos_getUuid_def vos_getTime_def uninit_def call_def Let_def initial_state_def)
  from len d f b show ?thesis
    by blast
qed

end
